theory Spec2Isabelle
  imports Main "HOL-Library.Word"
begin

unbundle bit_operations_syntax

section \<open>ALPS GlidePoint driver: data model\<close>

text \<open>
  A shallow embedding of the parts of \<^verbatim>\<open>VoodooPS2ALPSGlidePoint.cpp\<close> that frame
  the byte stream, identify the hardware model, decode V3/V4 packets, reconstruct
  contact geometry from the axis bitmaps and guard the gesture evaluation.
  Bytes are \<open>8 word\<close>, the bitmap words are \<open>32 word\<close> (\<^verbatim>\<open>unsigned int\<close>), and the
  C \<^verbatim>\<open>int\<close> values are modelled as \<open>int\<close>: the values decoded from packets stay
  far below \<open>2^31\<close>. The squared distances of the corner search are the exception,
  and there the 32-bit wrap-around is written out.
\<close>

type_synonym u8 = "8 word"
type_synonym u32 = "32 word"

datatype proto = ALPS_PROTO_V1 | ALPS_PROTO_V2 | ALPS_PROTO_V3 | ALPS_PROTO_V4 | ALPS_PROTO_V5

text \<open>\<^verbatim>\<open>ALPSStatus_t\<close>: the three bytes of an identification report.\<close>

type_synonym ALPSStatus_t = "u8 \<times> u8 \<times> u8"

definition ALPS_DUALPOINT :: u8 where "ALPS_DUALPOINT = 0x02"
definition ALPS_PASS :: u8 where "ALPS_PASS = 0x04"
definition ALPS_WHEEL :: u8 where "ALPS_WHEEL = 0x08"
definition ALPS_FW_BK_1 :: u8 where "ALPS_FW_BK_1 = 0x10"
definition ALPS_FW_BK_2 :: u8 where "ALPS_FW_BK_2 = 0x20"
definition ALPS_FOUR_BUTTONS :: u8 where "ALPS_FOUR_BUTTONS = 0x40"
definition ALPS_PS2_INTERLEAVED :: u8 where "ALPS_PS2_INTERLEAVED = 0x80"

text \<open>\<^verbatim>\<open>struct alps_model_info\<close>: one row of the static model table.\<close>

record alps_model_info =
  signature :: ALPSStatus_t
  command_mode_resp :: u8
  mi_proto_version :: proto
  mi_byte0 :: u8
  mi_mask0 :: u8
  mi_flags :: u8

definition model_row ::
  "ALPSStatus_t \<Rightarrow> u8 \<Rightarrow> proto \<Rightarrow> u8 \<Rightarrow> u8 \<Rightarrow> u8 \<Rightarrow> alps_model_info" where
  "model_row sg resp pv b0 m0 fl =
     \<lparr>signature = sg, command_mode_resp = resp, mi_proto_version = pv,
      mi_byte0 = b0, mi_mask0 = m0, mi_flags = fl\<rparr>"

definition alps_model_data :: "alps_model_info list" where
  "alps_model_data =
    [model_row (0x32, 0x02, 0x14) 0x00 ALPS_PROTO_V2 0xf8 0xf8 (ALPS_PASS OR ALPS_DUALPOINT),
     model_row (0x33, 0x02, 0x0a) 0x00 ALPS_PROTO_V1 0x88 0xf8 0,
     model_row (0x53, 0x02, 0x0a) 0x00 ALPS_PROTO_V2 0xf8 0xf8 0,
     model_row (0x53, 0x02, 0x14) 0x00 ALPS_PROTO_V2 0xf8 0xf8 0,
     model_row (0x60, 0x03, 0xc8) 0x00 ALPS_PROTO_V2 0xf8 0xf8 0,
     model_row (0x63, 0x02, 0x0a) 0x00 ALPS_PROTO_V2 0xf8 0xf8 0,
     model_row (0x63, 0x02, 0x14) 0x00 ALPS_PROTO_V2 0xf8 0xf8 0,
     model_row (0x63, 0x02, 0x28) 0x00 ALPS_PROTO_V2 0xf8 0xf8 ALPS_FW_BK_2,
     model_row (0x63, 0x02, 0x3c) 0x00 ALPS_PROTO_V2 0x8f 0x8f ALPS_WHEEL,
     model_row (0x63, 0x02, 0x50) 0x00 ALPS_PROTO_V2 0xef 0xef ALPS_FW_BK_1,
     model_row (0x63, 0x02, 0x64) 0x00 ALPS_PROTO_V2 0xf8 0xf8 0,
     model_row (0x63, 0x03, 0xc8) 0x00 ALPS_PROTO_V2 0xf8 0xf8 (ALPS_PASS OR ALPS_DUALPOINT),
     model_row (0x73, 0x00, 0x0a) 0x00 ALPS_PROTO_V2 0xf8 0xf8 ALPS_DUALPOINT,
     model_row (0x73, 0x02, 0x0a) 0x00 ALPS_PROTO_V2 0xf8 0xf8 0,
     model_row (0x73, 0x02, 0x14) 0x00 ALPS_PROTO_V2 0xf8 0xf8 ALPS_FW_BK_2,
     model_row (0x20, 0x02, 0x0e) 0x00 ALPS_PROTO_V2 0xf8 0xf8 (ALPS_PASS OR ALPS_DUALPOINT),
     model_row (0x22, 0x02, 0x0a) 0x00 ALPS_PROTO_V2 0xf8 0xf8 (ALPS_PASS OR ALPS_DUALPOINT),
     model_row (0x22, 0x02, 0x14) 0x00 ALPS_PROTO_V2 0xff 0xff (ALPS_PASS OR ALPS_DUALPOINT),
     model_row (0x62, 0x02, 0x14) 0x00 ALPS_PROTO_V2 0xcf 0xcf
       (ALPS_PASS OR ALPS_DUALPOINT OR ALPS_PS2_INTERLEAVED),
     model_row (0x73, 0x02, 0x50) 0x00 ALPS_PROTO_V2 0xcf 0xcf ALPS_FOUR_BUTTONS,
     model_row (0x52, 0x01, 0x14) 0x00 ALPS_PROTO_V2 0xff 0xff
       (ALPS_PASS OR ALPS_DUALPOINT OR ALPS_PS2_INTERLEAVED),
     model_row (0x73, 0x02, 0x64) 0x8a ALPS_PROTO_V4 0x8f 0x8f 0]"

text \<open>
  The function pointers of the driver object (\<^verbatim>\<open>hw_init\<close>, \<^verbatim>\<open>process_packet\<close>,
  \<^verbatim>\<open>decode_fields\<close>) are values of closed enumerations; \<open>Unset\<close> stands for a
  pointer that no assignment has reached yet.
\<close>

datatype hw_init_fn = HwInitUnset | HwInitV1V2 | HwInitV3 | HwInitRushmoreV3 | HwInitV4
  | HwInitDolphinV1
datatype process_packet_fn = ProcessUnset | ProcessPacketV1V2 | ProcessPacketV3 | ProcessPacketV4
datatype decode_fields_fn = DecodeUnset | DecodePinnacle | DecodeRushmore | DecodeDolphin
datatype nibble_table = NibblesUnset | Alps_v3_nibble_commands | Alps_v4_nibble_commands
datatype addr_cmd = AddrUnset | KDP_MouseResetWrap | KDP_SetDefaultsAndDisable

text \<open>
  The quirk masks are declared in the header. The source tests and sets the single mask
  \<^verbatim>\<open>ALPS_QUIRK_TRACKSTICK_BUTTONS\<close>, so \<^verbatim>\<open>modelData.quirks\<close> is the set of the
  quirks whose bit is set.
\<close>

datatype quirk = ALPS_QUIRK_TRACKSTICK_BUTTONS

text \<open>
  \<^verbatim>\<open>struct alps_data modelData\<close> together with the three function pointers of the
  driver object. The struct is declared in the header; the fields are the ones the
  modelled functions read or write.
\<close>

record alps_data =
  proto_version :: proto
  byte0 :: u8
  mask0 :: u8
  flags :: u8
  x_max :: int
  y_max :: int
  x_bits :: int
  y_bits :: int
  pktsize :: nat
  nibble_commands :: nibble_table
  addr_command :: addr_cmd
  multi_packet :: int
  multi_data :: "u8 list"
  second_touch :: int
  quirks :: "quirk set"
  fingers :: int
  hw_init :: hw_init_fn
  process_packet :: process_packet_fn
  decode_fields :: decode_fields_fn

section \<open>Identification\<close>

text \<open>\<^verbatim>\<open>setDefaults\<close>: per-protocol defaults (\<^verbatim>\<open>setupMaxes\<close> has an empty body).\<close>

definition setDefaults :: "alps_data \<Rightarrow> alps_data" where
  "setDefaults md0 =
    (let md = md0\<lparr>byte0 := 0x8f, mask0 := 0x8f, flags := ALPS_DUALPOINT,
                   x_max := 2000, y_max := 1400, x_bits := 15, y_bits := 11\<rparr>
     in case proto_version md of
          ALPS_PROTO_V1 \<Rightarrow>
            md\<lparr>hw_init := HwInitV1V2, process_packet := ProcessPacketV1V2,
               x_max := 1100, y_max := 800\<rparr>
        | ALPS_PROTO_V2 \<Rightarrow>
            md\<lparr>hw_init := HwInitV1V2, process_packet := ProcessPacketV1V2,
               x_max := 1100, y_max := 800\<rparr>
        | ALPS_PROTO_V3 \<Rightarrow>
            md\<lparr>hw_init := HwInitV3, process_packet := ProcessPacketV3,
               decode_fields := DecodePinnacle,
               nibble_commands := Alps_v3_nibble_commands,
               addr_command := KDP_MouseResetWrap\<rparr>
        | ALPS_PROTO_V4 \<Rightarrow>
            md\<lparr>hw_init := HwInitV4, process_packet := ProcessPacketV4,
               nibble_commands := Alps_v4_nibble_commands,
               addr_command := KDP_SetDefaultsAndDisable\<rparr>
        | ALPS_PROTO_V5 \<Rightarrow>
            md\<lparr>hw_init := HwInitDolphinV1, process_packet := ProcessPacketV3,
               decode_fields := DecodeDolphin,
               nibble_commands := Alps_v3_nibble_commands,
               addr_command := KDP_MouseResetWrap,
               byte0 := 0xc8, mask0 := 0xc8, flags := 0,
               x_max := 1360, y_max := 660, x_bits := 23, y_bits := 12\<rparr>)"

text \<open>
  \<^verbatim>\<open>matchTable\<close>: the first row whose signature equals the E7 report and whose
  command-mode response is zero or equals the third EC byte. \<open>None\<close> is the
  \<^verbatim>\<open>return false\<close> after the loop (the model data is then untouched).
\<close>

fun matchTable_loop ::
  "alps_model_info list \<Rightarrow> alps_data \<Rightarrow> ALPSStatus_t \<Rightarrow> ALPSStatus_t \<Rightarrow> alps_data option" where
  "matchTable_loop [] md e7 ec = None"
| "matchTable_loop (model # rest) md e7 ec =
     (if e7 = signature model \<and>
         (command_mode_resp model = 0 \<or> command_mode_resp model = snd (snd ec))
      then Some ((setDefaults (md\<lparr>proto_version := mi_proto_version model\<rparr>))
                  \<lparr>flags := mi_flags model, byte0 := mi_byte0 model,
                   mask0 := mi_mask0 model\<rparr>)
      else matchTable_loop rest md e7 ec)"

definition matchTable :: "alps_data \<Rightarrow> ALPSStatus_t \<Rightarrow> ALPSStatus_t \<Rightarrow> alps_data option" where
  "matchTable md e7 ec = matchTable_loop alps_model_data md e7 ec"

datatype IOReturn = kIOReturnSuccess | kIOReturnIOError | kIOReturnInvalid

text \<open>
  What the blocking transport answers during \<^verbatim>\<open>identify\<close>: each \<^verbatim>\<open>repeatCmd\<close> either
  fails (\<open>None\<close>) or yields a report; \<^verbatim>\<open>exitCommandMode\<close> succeeds or not; and
  \<^verbatim>\<open>probeTrackstickV3\<close> returns a non-zero code or zero.
\<close>

record transport =
  e6_report :: "ALPSStatus_t option"
  e7_report :: "ALPSStatus_t option"
  ec_report :: "ALPSStatus_t option"
  exitCommandMode_ok :: bool
  probeTrackstickV3_nonzero :: bool

definition e6_invalid :: "ALPSStatus_t \<Rightarrow> bool" where
  "e6_invalid e6 =
     (case e6 of (b0, b1, b2) \<Rightarrow>
        (b0 AND 0xf8) \<noteq> 0 \<or> b1 \<noteq> 0 \<or> (b2 \<noteq> 10 \<and> b2 \<noteq> 100))"

text \<open>
  \<^verbatim>\<open>identify\<close>. The \<^verbatim>\<open>&&\<close> chain of the E7/EC retrieval short-circuits, which the
  nested case distinction follows.
\<close>

definition identify_match :: "transport \<Rightarrow> alps_data \<Rightarrow> ALPSStatus_t \<Rightarrow> ALPSStatus_t
    \<Rightarrow> IOReturn \<times> alps_data" where
  "identify_match tr md e7 ec =
     (case matchTable md e7 ec of
        Some md' \<Rightarrow> (kIOReturnSuccess, md')
      | None \<Rightarrow>
          (case (e7, ec) of ((a0, a1, a2), (c0, c1, c2)) \<Rightarrow>
             if a0 = 0x73 \<and> a1 = 0x03 \<and> a2 = 0x50 \<and> c0 = 0x73 \<and> (c1 = 0x01 \<or> c1 = 0x02)
             then (kIOReturnSuccess, setDefaults (md\<lparr>proto_version := ALPS_PROTO_V5\<rparr>))
             else if c0 = 0x88 \<and> c1 = 0x08
             then (let md1 = (setDefaults (md\<lparr>proto_version := ALPS_PROTO_V3\<rparr>))
                               \<lparr>hw_init := HwInitRushmoreV3, decode_fields := DecodeRushmore,
                                x_bits := 16, y_bits := 12\<rparr>
                   in (kIOReturnSuccess,
                       if probeTrackstickV3_nonzero tr
                       then md1\<lparr>flags := flags md1 AND NOT ALPS_DUALPOINT\<rparr> else md1))
             else if c0 = 0x88 \<and> c1 = 0x07 \<and> 0x90 \<le> c2 \<and> c2 \<le> 0x9d
             then (kIOReturnSuccess, setDefaults (md\<lparr>proto_version := ALPS_PROTO_V3\<rparr>))
             else (kIOReturnInvalid, md)))"

definition identify :: "transport \<Rightarrow> alps_data \<Rightarrow> IOReturn \<times> alps_data" where
  "identify tr md =
     (case e6_report tr of
        None \<Rightarrow> (kIOReturnIOError, md)
      | Some e6 \<Rightarrow>
          if e6_invalid e6 then (kIOReturnInvalid, md)
          else (case e7_report tr of
                  None \<Rightarrow> (kIOReturnIOError, md)
                | Some e7 \<Rightarrow>
                    (case ec_report tr of
                       None \<Rightarrow> (kIOReturnIOError, md)
                     | Some ec \<Rightarrow>
                         if \<not> exitCommandMode_ok tr then (kIOReturnIOError, md)
                         else identify_match tr md e7 ec)))"

text \<open>
  What the transport answers during the hardware initialisation selected by
  \<^verbatim>\<open>hw_init\<close>: whether the initialisation succeeds, and whether the trackstick setup
  of \<^verbatim>\<open>hwInitRushmoreV3\<close> reports that there is no device. That report is the only
  way an initialisation function writes the model data: it revokes the trackstick
  capability.
\<close>

record hw_outcome =
  hw_init_ok :: bool
  trackstick_nodevice :: bool

definition call_hw_init :: "hw_outcome \<Rightarrow> alps_data \<Rightarrow> bool \<times> alps_data" where
  "call_hw_init hw md =
     (if hw_init md = HwInitRushmoreV3 \<and> (flags md AND ALPS_DUALPOINT) \<noteq> 0
         \<and> trackstick_nodevice hw
      then (hw_init_ok hw, md\<lparr>flags := flags md AND NOT ALPS_DUALPOINT\<rparr>)
      else (hw_init_ok hw, md))"

text \<open>
  \<^verbatim>\<open>deviceSpecificInit\<close>: identification, then the packet size, then the selected
  hardware initialisation. The result is the returned flag and the model data left
  behind.
\<close>

definition deviceSpecificInit :: "transport \<Rightarrow> hw_outcome \<Rightarrow> alps_data \<Rightarrow> bool \<times> alps_data" where
  "deviceSpecificInit tr hw md =
     (case identify tr md of
        (rc, md1) \<Rightarrow>
          if rc \<noteq> kIOReturnSuccess then (False, md1)
          else call_hw_init hw
                 (md1\<lparr>pktsize := (if proto_version md1 = ALPS_PROTO_V4 then 8 else 6)\<rparr>))"

section \<open>Packet framing\<close>








section \<open>Bitmap reconstruction\<close>

text \<open>C integer division and remainder truncate towards zero.\<close>

definition c_div :: "int \<Rightarrow> int \<Rightarrow> int" where
  "c_div a b = sgn a * sgn b * (\<bar>a\<bar> div \<bar>b\<bar>)"

definition c_mod :: "int \<Rightarrow> int \<Rightarrow> int" where
  "c_mod a b = a - b * c_div a b"

record alps_bitmap_point =
  start_bit :: int
  num_bits :: int

text \<open>The pointer \<^verbatim>\<open>point\<close> of \<^verbatim>\<open>alps_get_bitmap_points\<close> aims at one of its two outputs.\<close>

datatype point_ref = PointLow | PointHigh

definition point_update ::
  "point_ref \<Rightarrow> (alps_bitmap_point \<Rightarrow> alps_bitmap_point)
     \<Rightarrow> alps_bitmap_point \<times> alps_bitmap_point \<Rightarrow> alps_bitmap_point \<times> alps_bitmap_point" where
  "point_update pt g lh =
     (case pt of PointLow \<Rightarrow> (g (fst lh), snd lh) | PointHigh \<Rightarrow> (fst lh, g (snd lh)))"

text \<open>
  The loop of \<^verbatim>\<open>alps_get_bitmap_points\<close> over the remaining bits \<open>m\<close> of the map
  (\<^verbatim>\<open>map >>= 1\<close> on an unsigned value is \<open>div 2\<close>, \<^verbatim>\<open>map & 1\<close> is \<open>mod 2\<close>).
\<close>

function bitmap_points_loop ::
  "nat \<Rightarrow> int \<Rightarrow> nat \<Rightarrow> point_ref \<Rightarrow> alps_bitmap_point \<times> alps_bitmap_point \<Rightarrow> int
     \<Rightarrow> (alps_bitmap_point \<times> alps_bitmap_point) \<times> int" where
  "bitmap_points_loop m i prev_bit pt lh fingers_count =
     (if m = 0 then (lh, fingers_count)
      else if m mod 2 \<noteq> 0
      then (if prev_bit = 0
            then bitmap_points_loop (m div 2) (i + 1) (m mod 2) pt
                   (point_update pt (\<lambda>p. p\<lparr>num_bits := num_bits p + 1\<rparr>)
                      (point_update pt (\<lambda>p. p\<lparr>start_bit := i, num_bits := 0\<rparr>) lh))
                   (fingers_count + 1)
            else bitmap_points_loop (m div 2) (i + 1) (m mod 2) pt
                   (point_update pt (\<lambda>p. p\<lparr>num_bits := num_bits p + 1\<rparr>) lh)
                   fingers_count)
      else bitmap_points_loop (m div 2) (i + 1) (m mod 2)
             (if prev_bit \<noteq> 0 then PointHigh else pt) lh fingers_count)"
  by pat_completeness auto
termination
  by (relation "measure (\<lambda>(m, i, prev_bit, pt, lh, fingers_count). m)") auto

declare bitmap_points_loop.simps [simp del]

definition alps_get_bitmap_points ::
  "u32 \<Rightarrow> alps_bitmap_point \<times> alps_bitmap_point \<Rightarrow> int
     \<Rightarrow> (alps_bitmap_point \<times> alps_bitmap_point) \<times> int" where
  "alps_get_bitmap_points bmap lh fingers_count =
     bitmap_points_loop (unat bmap) 0 0 PointLow lh fingers_count"

definition zero_point :: alps_bitmap_point where
  "zero_point = \<lparr>start_bit = 0, num_bits = 0\<rparr>"

text \<open>
  The division of a single contact between the two points, which \<^verbatim>\<open>processBitmap\<close>
  writes out once for each axis (\<^verbatim>\<open>num_bits / 2\<close> has non-negative operands).
\<close>

definition split_single ::
  "alps_bitmap_point \<times> alps_bitmap_point \<Rightarrow> alps_bitmap_point \<times> alps_bitmap_point" where
  "split_single lh =
     (let i = c_div (num_bits (fst lh)) 2;
          low' = (fst lh)\<lparr>num_bits := num_bits (fst lh) - i\<rparr>;
          high' = (snd lh)\<lparr>start_bit := start_bit low' + i, num_bits := max i 1\<rparr>
      in (low', high'))"

text \<open>
  One axis of \<^verbatim>\<open>processBitmap\<close>: the scan from zero-initialised points with a zero
  finger counter, followed by the split when exactly one contact was counted.
\<close>

definition axis_points :: "u32 \<Rightarrow> (alps_bitmap_point \<times> alps_bitmap_point) \<times> int" where
  "axis_points bmap =
     (case alps_get_bitmap_points bmap (zero_point, zero_point) 0 of
        (lh, n) \<Rightarrow> (if n = 1 then split_single lh else lh, n))"

definition corner_coord :: "int \<Rightarrow> int \<Rightarrow> alps_bitmap_point \<Rightarrow> int" where
  "corner_coord maxv bits p =
     c_div (maxv * (2 * start_bit p + num_bits p - 1)) (2 * (bits - 1))"

text \<open>
  \<^verbatim>\<open>struct alps_fields\<close>; field \<^verbatim>\<open>x\<close> of the struct is \<open>f_x\<close> here, and so on.
\<close>

record alps_fields =
  f_x_map :: u32
  f_y_map :: u32
  f_fingers :: int
  f_x :: int
  f_y :: int
  f_z :: int
  f_x1 :: int
  f_y1 :: int
  f_x2 :: int
  f_y2 :: int
  f_first_mp :: bool
  f_is_mp :: bool
  f_left :: bool
  f_right :: bool
  f_middle :: bool
  f_ts_left :: bool
  f_ts_right :: bool
  f_ts_middle :: bool

text \<open>
  Undefined behaviour of the C code that the model makes explicit: a division by zero,
  an array index outside the array, a call through a function pointer that was never
  assigned.
\<close>

datatype fault = DivisionByZero | IndexOutOfRange | UnsetFunctionPointer

text \<open>
  The value of a 32-bit \<^verbatim>\<open>int\<close> after an arithmetic result \<open>v\<close>: the compiled code
  keeps the low 32 bits in two's complement, so a result outside the range wraps around.
\<close>

definition int32 :: "int \<Rightarrow> int" where
  "int32 v = sint (word_of_int v :: 32 word)"

text \<open>
  The search for the corner closest to the single-touch coordinates: \<open>i\<close> is the
  index of the next corner, \<open>st\<close> the running \<^verbatim>\<open>second_touch\<close>, \<open>closest\<close> the
  smallest squared distance seen so far. \<^verbatim>\<open>dx\<close>, \<^verbatim>\<open>dy\<close> and \<^verbatim>\<open>distance\<close> are
  \<^verbatim>\<open>int\<close> locals: every difference, product and sum is taken in 32 bits.
\<close>

fun closest_loop :: "int \<Rightarrow> int \<Rightarrow> (int \<times> int) list \<Rightarrow> int \<Rightarrow> int \<Rightarrow> int \<Rightarrow> int" where
  "closest_loop fx fy [] i st closest = st"
| "closest_loop fx fy (c # cs) i st closest =
     (let dx = int32 (fx - fst c); dy = int32 (fy - snd c);
          distance = int32 (int32 (dx * dx) + int32 (dy * dy))
      in if distance < closest
         then closest_loop fx fy cs (i + 1) i distance
         else closest_loop fx fy cs (i + 1) st closest)"

text \<open>The four bounding corners, after the per-protocol axis inversions.\<close>

definition corners :: "alps_data \<Rightarrow> alps_fields \<Rightarrow> (int \<times> int) list" where
  "corners md f =
     (let xl = fst (fst (axis_points (f_x_map f))); xh = snd (fst (axis_points (f_x_map f)));
          yl = fst (fst (axis_points (f_y_map f))); yh = snd (fst (axis_points (f_y_map f)));
          cx = corner_coord (x_max md) (x_bits md);
          cy = corner_coord (y_max md) (y_bits md);
          c0 = [(cx xl, cy yl), (cx xh, cy yl), (cx xh, cy yh), (cx xl, cy yh)];
          c1 = (if proto_version md = ALPS_PROTO_V5
                then map (\<lambda>c. (x_max md - fst c, snd c)) c0 else c0)
      in if proto_version md = ALPS_PROTO_V3 \<or> proto_version md = ALPS_PROTO_V4
         then map (\<lambda>c. (fst c, y_max md - snd c)) c1 else c1)"

text \<open>
  \<^verbatim>\<open>processBitmap\<close>: the returned finger count, and the model data and fields it
  leaves behind.
\<close>

definition processBitmap ::
  "alps_data \<Rightarrow> alps_fields \<Rightarrow> fault + (int \<times> alps_data \<times> alps_fields)" where
  "processBitmap md f =
     (if f_x_map f = 0 \<or> f_y_map f = 0 then Inr (0, md, f)
      else
        (let fingers_x = snd (axis_points (f_x_map f));
             fingers_y = snd (axis_points (f_y_map f));
             fingers_count = max fingers_x fingers_y
         in if x_bits md = 1 \<or> y_bits md = 1 then Inl DivisionByZero
            else
              (let corner = corners md f;
                   st = (if second_touch md = - 1
                         then c_mod (closest_loop (f_x f) (f_y f) corner 0 (second_touch md)
                                       0x7fffffff + 2) 4
                         else second_touch md)
               in if st < 0 \<or> 4 \<le> st then Inl IndexOutOfRange
                  else Inr (fingers_count, md\<lparr>second_touch := st\<rparr>,
                            f\<lparr>f_x1 := f_x f, f_y1 := f_y f,
                              f_x2 := fst (corner ! nat st), f_y2 := snd (corner ! nat st)\<rparr>))))"


section \<open>Field decoding (V3, V5)\<close>

text \<open>
  A packet is the list of its bytes. \<open>pb p i\<close> is \<^verbatim>\<open>p[i]\<close> promoted to a 32-bit
  value; the C expressions below work on values between 0 and \<open>2^23\<close>, where signed
  and unsigned arithmetic agree.
\<close>

definition pb :: "u8 list \<Rightarrow> nat \<Rightarrow> u32" where
  "pb p i = ucast (p ! i)"

definition decodeButtonsV3 :: "alps_fields \<Rightarrow> u8 list \<Rightarrow> alps_fields" where
  "decodeButtonsV3 f p =
     f\<lparr>f_left := (pb p 3 AND 0x01) \<noteq> 0,
       f_right := (pb p 3 AND 0x02) \<noteq> 0,
       f_middle := (pb p 3 AND 0x04) \<noteq> 0,
       f_ts_left := (pb p 3 AND 0x10) \<noteq> 0,
       f_ts_right := (pb p 3 AND 0x20) \<noteq> 0,
       f_ts_middle := (pb p 3 AND 0x40) \<noteq> 0\<rparr>"

definition decodePinnacle :: "alps_fields \<Rightarrow> u8 list \<Rightarrow> alps_fields" where
  "decodePinnacle f0 p =
     (let f = f0\<lparr>f_first_mp := (pb p 4 AND 0x40) \<noteq> 0, f_is_mp := (pb p 0 AND 0x40) \<noteq> 0\<rparr>
      in if f_is_mp f
         then f\<lparr>f_fingers := uint (pb p 5 AND 0x3) + 1,
                f_x_map := push_bit 8 (pb p 4 AND 0x7e) OR push_bit 2 (pb p 1 AND 0x7f)
                           OR drop_bit 4 (pb p 0 AND 0x30),
                f_y_map := push_bit 4 (pb p 3 AND 0x70) OR push_bit 1 (pb p 2 AND 0x7f)
                           OR (pb p 4 AND 0x01)\<rparr>
         else decodeButtonsV3
                (f\<lparr>f_x := uint (push_bit 4 (pb p 1 AND 0x7f) OR drop_bit 2 (pb p 4 AND 0x30)
                              OR drop_bit 4 (pb p 0 AND 0x30)),
                   f_y := uint (push_bit 4 (pb p 2 AND 0x7f) OR (pb p 4 AND 0x0f)),
                   f_z := uint (pb p 5 AND 0x7f)\<rparr>) p)"

definition decodeRushmore :: "alps_fields \<Rightarrow> u8 list \<Rightarrow> alps_fields" where
  "decodeRushmore f0 p =
     (let f = f0\<lparr>f_first_mp := (pb p 4 AND 0x40) \<noteq> 0, f_is_mp := (pb p 5 AND 0x40) \<noteq> 0\<rparr>
      in if f_is_mp f
         then f\<lparr>f_fingers := uint (max (pb p 5 AND 0x3) (drop_bit 2 (pb p 5) AND 0x3)) + 1,
                f_x_map := push_bit 11 (pb p 5 AND 0x10) OR push_bit 8 (pb p 4 AND 0x7e)
                           OR push_bit 2 (pb p 1 AND 0x7f) OR drop_bit 4 (pb p 0 AND 0x30),
                f_y_map := push_bit 6 (pb p 5 AND 0x20) OR push_bit 4 (pb p 3 AND 0x70)
                           OR push_bit 1 (pb p 2 AND 0x7f) OR (pb p 4 AND 0x01)\<rparr>
         else decodeButtonsV3
                (f\<lparr>f_x := uint (push_bit 4 (pb p 1 AND 0x7f) OR drop_bit 2 (pb p 4 AND 0x30)
                              OR drop_bit 4 (pb p 0 AND 0x30)),
                   f_y := uint (push_bit 4 (pb p 2 AND 0x7f) OR (pb p 4 AND 0x0f)),
                   f_z := uint (pb p 5 AND 0x7f)\<rparr>) p)"

definition decodeDolphin :: "alps_fields \<Rightarrow> u8 list \<Rightarrow> alps_fields" where
  "decodeDolphin f0 p =
     decodeButtonsV3
       (f0\<lparr>f_first_mp := (pb p 0 AND 0x02) \<noteq> 0,
           f_is_mp := (pb p 0 AND 0x20) \<noteq> 0,
           f_fingers := uint (drop_bit 1 (pb p 0 AND 0x6) OR drop_bit 2 (pb p 0 AND 0x10)),
           f_x_map := drop_bit 5 (pb p 2 AND 0x60) OR push_bit 2 (pb p 4 AND 0x7f)
                      OR push_bit 9 (pb p 5 AND 0x7f) OR push_bit 16 (pb p 3 AND 0x07)
                      OR push_bit 15 (pb p 3 AND 0x70) OR push_bit 22 (pb p 0 AND 0x01),
           f_y_map := (pb p 1 AND 0x7f) OR push_bit 7 (pb p 2 AND 0x1f),
           f_x := uint ((pb p 1 AND 0x7f) OR push_bit 7 (pb p 4 AND 0x0f)),
           f_y := uint ((pb p 2 AND 0x7f) OR push_bit 3 (pb p 4 AND 0xf0)),
           f_z := (if (pb p 0 AND 4) \<noteq> 0 then 0 else uint (pb p 5 AND 0x7f))\<rparr>) p"

text \<open>The call \<^verbatim>\<open>(this->*decode_fields)(&f, p)\<close>.\<close>

definition call_decode_fields ::
  "decode_fields_fn \<Rightarrow> alps_fields \<Rightarrow> u8 list \<Rightarrow> fault + alps_fields" where
  "call_decode_fields d f p =
     (case d of
        DecodeUnset \<Rightarrow> Inl UnsetFunctionPointer
      | DecodePinnacle \<Rightarrow> Inr (decodePinnacle f p)
      | DecodeRushmore \<Rightarrow> Inr (decodeRushmore f p)
      | DecodeDolphin \<Rightarrow> Inr (decodeDolphin f p))"

section \<open>V3 touchpad packets\<close>

text \<open>
  The arguments of one call \<^verbatim>\<open>dispatchEventsWithInfo(x, y, z, fingers, buttons)\<close>: an
  absolute sample handed to the gesture state machine. Every pointer, scroll and swipe
  event of a touchpad packet is dispatched inside that call.
\<close>

record abs_sample =
  s_x :: int
  s_y :: int
  s_z :: int
  s_fingers :: int
  s_buttons :: u32

definition buttons_of :: "bool \<Rightarrow> bool \<Rightarrow> bool \<Rightarrow> u32" where
  "buttons_of l r m = (if l then 0x01 else 0) OR (if r then 0x02 else 0) OR (if m then 0x04 else 0)"

text \<open>
  The multi-packet block of \<^verbatim>\<open>processTouchpadPacketV3\<close>: the model data, the fields and
  the local \<^verbatim>\<open>fingers\<close> it leaves behind.
\<close>

definition v3_multi_packet_block ::
  "alps_data \<Rightarrow> alps_fields \<Rightarrow> fault + (alps_data \<times> alps_fields \<times> int)" where
  "v3_multi_packet_block md f =
     (if multi_packet md \<noteq> 0
      then (if f_is_mp f
            then (case call_decode_fields (decode_fields md) f (multi_data md) of
                    Inl e \<Rightarrow> Inl e
                  | Inr f1 \<Rightarrow>
                      (case processBitmap md f1 of
                         Inl e \<Rightarrow> Inl e
                       | Inr (n, md1, f2) \<Rightarrow>
                           Inr (md1, if f_fingers f = 1 then f2\<lparr>f_z := 0\<rparr> else f2, f_fingers f)))
            else Inr (md\<lparr>multi_packet := 0\<rparr>, f, 0))
      else Inr (md, f, 0))"

text \<open>
  \<^verbatim>\<open>processTouchpadPacketV3\<close>. \<open>f0\<close> is the content of the uninitialised local
  \<^verbatim>\<open>struct alps_fields f\<close>. The result is the model data left behind and the sample
  passed to \<^verbatim>\<open>dispatchEventsWithInfo\<close>, \<open>None\<close> when the function returns without
  calling it. The \<^verbatim>\<open>memcpy\<close> fills \<^verbatim>\<open>multi_data\<close>, an array of six bytes (the V4 code
  addresses its offsets 0 to 5).
\<close>

definition processTouchpadPacketV3 ::
  "alps_fields \<Rightarrow> alps_data \<Rightarrow> u8 list \<Rightarrow> fault + (alps_data \<times> abs_sample option)" where
  "processTouchpadPacketV3 f0 md pkt =
     (case call_decode_fields (decode_fields md) f0 pkt of
        Inl e \<Rightarrow> Inl e
      | Inr f \<Rightarrow>
          if 2 < multi_packet md then Inr (md, None)
          else
            (case v3_multi_packet_block md f of
               Inl e \<Rightarrow> Inl e
             | Inr (md1, f1, fingers_mt) \<Rightarrow>
                 if f_is_mp f1 then Inr (md1, None)
                 else if multi_packet md1 = 0 \<and> f_first_mp f1
                 then Inr (md1\<lparr>multi_packet := 1, multi_data := take 6 pkt\<rparr>, None)
                 else
                   (let md2 = md1\<lparr>multi_packet := 0\<rparr>;
                        st = fingers_mt < 2;
                        fingers_count = (if st then (if 0 < f_z f1 then 1 else 0) else fingers_mt);
                        f2 = (if st then f1\<lparr>f_x1 := f_x f1, f_y1 := f_y f1\<rparr> else f1);
                        md3 = (if st then md2\<lparr>second_touch := - 1\<rparr> else md2);
                        buttons = buttons_of (f_left f2) (f_right f2) (f_middle f2)
                          OR (if ALPS_QUIRK_TRACKSTICK_BUTTONS \<notin> quirks md3
                              then buttons_of (f_ts_left f2) (f_ts_right f2) (f_ts_middle f2)
                              else 0)
                    in Inr (md3, Some \<lparr>s_x = f_x1 f2 * 3, s_y = f_y1 f2 * 3, s_z = f_z f2,
                                        s_fingers = fingers_count, s_buttons = buttons\<rparr>))))"

section \<open>V4 packets\<close>

text \<open>
  The two expressions that \<^verbatim>\<open>processPacketV4\<close> assigns to its locals \<^verbatim>\<open>x_bitmap\<close> and
  \<^verbatim>\<open>y_bitmap\<close>, over the six bytes of \<^verbatim>\<open>multi_data\<close>.
\<close>

definition v4_x_bitmap :: "u8 list \<Rightarrow> u32" where
  "v4_x_bitmap d =
     push_bit 10 (pb d 2 AND 0x1f) OR push_bit 3 (pb d 3 AND 0x60)
       OR push_bit 2 (pb d 0 AND 0x3f) OR drop_bit 5 (pb d 1 AND 0x60)"

definition v4_y_bitmap :: "u8 list \<Rightarrow> u32" where
  "v4_y_bitmap d =
     push_bit 10 (pb d 5 AND 0x01) OR push_bit 5 (pb d 3 AND 0x1f) OR (pb d 1 AND 0x1f)"

text \<open>
  \<^verbatim>\<open>processPacketV4\<close>. The result is the model data left behind and the sample passed
  to \<^verbatim>\<open>dispatchEventsWithInfo\<close>, \<open>None\<close> when the function returns without calling it.
  After the third fragment the source assigns the locals \<^verbatim>\<open>x_bitmap\<close> and \<^verbatim>\<open>y_bitmap\<close>
  and never reads them: the call of \<^verbatim>\<open>processBitmap\<close> is commented out, and the local
  \<^verbatim>\<open>fingers\<close>, still 0, is stored in \<^verbatim>\<open>modelData.fingers\<close>.
\<close>

definition processPacketV4 ::
  "alps_data \<Rightarrow> u8 list \<Rightarrow> fault + (alps_data \<times> abs_sample option)" where
  "processPacketV4 md0 pkt =
     (let md1 = (if (pb pkt 6 AND 0x40) \<noteq> 0 then md0\<lparr>multi_packet := 0\<rparr> else md0)
      in if 2 < multi_packet md1 then Inr (md1, None)
         else if multi_packet md1 < 0 \<or> int (length (multi_data md1)) \<le> 2 * multi_packet md1 + 1
         then Inl IndexOutOfRange
         else
           (let fingers0 = 0;
                offset = nat (2 * multi_packet md1);
                md2 = md1\<lparr>multi_data := (multi_data md1)[offset := pkt ! 6, offset + 1 := pkt ! 7],
                          multi_packet := multi_packet md1 + 1\<rparr>;
                md3 = (if 2 < multi_packet md2
                       then (let x_bitmap = v4_x_bitmap (multi_data md2);
                                 y_bitmap = v4_y_bitmap (multi_data md2)
                             in md2\<lparr>multi_packet := 0, fingers := fingers0\<rparr>)
                       else md2);
                x = uint (push_bit 4 (pb pkt 1 AND 0x7f) OR drop_bit 2 (pb pkt 3 AND 0x30)
                          OR drop_bit 4 (pb pkt 0 AND 0x30));
                y = uint (push_bit 4 (pb pkt 2 AND 0x7f) OR (pb pkt 3 AND 0x0f));
                z = uint (pb pkt 5 AND 0x7f);
                fingers_count = (if fingers md3 < 2 then (if 0 < z then 1 else 0) else fingers md3);
                buttons = buttons_of ((pb pkt 4 AND 0x01) \<noteq> 0) ((pb pkt 4 AND 0x02) \<noteq> 0) False
            in Inr (md3, Some \<lparr>s_x = x, s_y = y, s_z = z, s_fingers = fingers_count,
                                s_buttons = buttons\<rparr>)))"

text \<open>Feeding V4 packets in order: the sample of every call, first packet first.\<close>

fun processPacketsV4 ::
  "alps_data \<Rightarrow> u8 list list \<Rightarrow> fault + (alps_data \<times> abs_sample option list)" where
  "processPacketsV4 md [] = Inr (md, [])"
| "processPacketsV4 md (p # ps) =
     (case processPacketV4 md p of
        Inl e \<Rightarrow> Inl e
      | Inr (md1, smp) \<Rightarrow>
          (case processPacketsV4 md1 ps of
             Inl e \<Rightarrow> Inl e
           | Inr (md2, outs) \<Rightarrow> Inr (md2, smp # outs)))"


section \<open>Gesture state and the trackstick\<close>

type_synonym u64 = "64 word"

datatype touch_mode = MODE_NOTOUCH | MODE_PREDRAG | MODE_DRAGNOTOUCH | MODE_MOVE
  | MODE_VSCROLL | MODE_HSCROLL | MODE_CSCROLL | MODE_MTOUCH | MODE_DRAG | MODE_DRAGLOCK

datatype timer_id = ScrollTimer | DragTimer

text \<open>
  What the driver hands to its collaborators: \<^verbatim>\<open>dispatchRelativePointerEventX\<close>,
  \<^verbatim>\<open>dispatchScrollWheelEventX\<close> (without their time stamp) and \<^verbatim>\<open>setTimerTimeout\<close>.
\<close>

datatype event =
    RelativePointerEvent int int u32
  | ScrollWheelEvent int int int
  | TimerTimeout timer_id u64

datatype mb_from = FromPassthru | FromTrackpad | FromCancel

text \<open>
  Modelled from the spec: the history classes behind \<^verbatim>\<open>dy_history\<close> and
  \<^verbatim>\<open>time_history\<close> are declared in a header outside the source file. The
  specification calls them a bounded history of recent vertical deltas and of their
  time stamps; a history is the list of its samples, oldest first, and an empty history
  answers 0.
\<close>

definition hist_count :: "'a list \<Rightarrow> int" where
  "hist_count h = int (length h)"

definition hist_sum :: "int list \<Rightarrow> int" where
  "hist_sum h = sum_list h"

definition hist_newest :: "u64 list \<Rightarrow> u64" where
  "hist_newest h = (if h = [] then 0 else last h)"

definition hist_oldest :: "u64 list \<Rightarrow> u64" where
  "hist_oldest h = (if h = [] then 0 else hd h)"

text \<open>
  The configuration the modelled code reads (set from the property list, never written
  by the packet path).
\<close>

record settings =
  xupmm :: int
  yupmm :: int
  clickpadtype :: bool
  ignoredeltasstart :: int
  unsmoothinput :: bool
  smoothinput :: bool
  outzone_wt :: bool
  z_finger :: int
  maxaftertyping :: u64
  zonel :: int
  zoner :: int
  zoneb :: int
  zonet :: int
  momentumscroll :: bool
  momentumscrolltimer :: u64
  momentumscrollsamplesmin :: int

text \<open>
  The mutable members of the driver object that the modelled code reads or writes.
  The smoothing filters and the middle-button machine are classes of the base driver;
  their states are the type parameters \<open>'flt\<close> and \<open>'mb\<close>.
\<close>

record ('flt, 'mb) touch_state =
  touchmode :: touch_mode
  last_fingers :: int
  lastbuttons :: u32
  passbuttons :: u32
  ignoredeltas :: int
  lastx :: int
  lasty :: int
  lastx2 :: int
  lasty2 :: int
  keytime :: u64
  ignoreall :: bool
  xrest :: int
  yrest :: int
  scrollrest :: int
  inSwipeLeft :: int
  inSwipeRight :: int
  inSwipeUp :: int
  inSwipeDown :: int
  inSwipe4Left :: int
  inSwipe4Right :: int
  inSwipe4Up :: int
  inSwipe4Down :: int
  xmoved :: int
  ymoved :: int
  untouchtime :: u64
  tracksecondary :: bool
  dy_history :: "int list"
  time_history :: "u64 list"
  momentumscrollinterval :: u64
  momentumscrollsum :: int
  momentumscrollcurrent :: u64
  momentumscrollrest1 :: int
  momentumscrollrest2 :: int
  x_undo :: 'flt
  y_undo :: 'flt
  x_avg :: 'flt
  y_avg :: 'flt
  mbutton :: 'mb

text \<open>
  The base driver's helpers that the modelled code calls: the filters' \<^verbatim>\<open>reset\<close> and
  \<^verbatim>\<open>filter\<close>, and \<^verbatim>\<open>middleButton\<close>, which returns the button mask and may dispatch
  events of its own.
\<close>

record ('flt, 'mb) collaborators =
  undo_reset :: "'flt \<Rightarrow> 'flt"
  avg_reset :: "'flt \<Rightarrow> 'flt"
  undo_filter :: "'flt \<Rightarrow> int \<Rightarrow> int \<times> 'flt"
  avg_filter :: "'flt \<Rightarrow> int \<Rightarrow> int \<times> 'flt"
  middleButton :: "'mb \<Rightarrow> u32 \<Rightarrow> u64 \<Rightarrow> mb_from \<Rightarrow> u32 \<times> 'mb \<times> event list"

text \<open>
  Modelled from the spec: \<^verbatim>\<open>isTouchMode\<close> is declared in a header outside the source
  file. The specification's touch states are the modes with a contact on the pad: all
  but \<open>NoTouch\<close>, \<open>PreDrag\<close> and \<open>DragNoTouch\<close>.
\<close>

definition isTouchMode :: "touch_mode \<Rightarrow> bool" where
  "isTouchMode m = (m \<noteq> MODE_NOTOUCH \<and> m \<noteq> MODE_PREDRAG \<and> m \<noteq> MODE_DRAGNOTOUCH)"

text \<open>The macro \<^verbatim>\<open>abs\<close> of the source.\<close>

definition c_abs :: "int \<Rightarrow> int" where
  "c_abs v = (if v < 0 then - v else v)"

text \<open>
  The motion a trackstick packet carries: both axes as signed bytes, \<open>y\<close> reversed,
  and the pair zeroed when both magnitudes reach \<open>0x7f\<close>.
\<close>

definition trackstick_raw :: "u8 list \<Rightarrow> int \<times> int" where
  "trackstick_raw pkt =
     (sint (push_bit 2 (pkt ! 0 AND 0x20) OR (pkt ! 1 AND 0x7f)),
      sint (push_bit 3 (pkt ! 0 AND 0x10) OR (pkt ! 2 AND 0x7f)))"

definition trackstick_motion :: "u8 list \<Rightarrow> int \<times> int" where
  "trackstick_motion pkt =
     (let x = fst (trackstick_raw pkt); y = - snd (trackstick_raw pkt)
      in if 0x7f \<le> c_abs x \<and> 0x7f \<le> c_abs y then (0, 0) else (x, y))"

text \<open>
  \<^verbatim>\<open>processTrackstickPacketV3\<close>: the model data and the driver state left behind, and
  the events dispatched (\<^verbatim>\<open>y >> 1\<close> on a signed value is the arithmetic shift, \<open>div 2\<close>).
\<close>

definition processTrackstickPacketV3 ::
  "alps_data \<Rightarrow> ('flt, 'mb) touch_state \<Rightarrow> u8 list
     \<Rightarrow> alps_data \<times> ('flt, 'mb) touch_state \<times> event list" where
  "processTrackstickPacketV3 md ts pkt =
     (if (pkt ! 0 AND 0x40) = 0 then (md, ts, [])
      else if pkt ! 1 = 0x7f \<and> pkt ! 2 = 0x7f \<and> pkt ! 3 = 0x7f then (md, ts, [])
      else
        (let left = (pkt ! 3 AND 0x01) \<noteq> 0;
             right = (pkt ! 3 AND 0x02) \<noteq> 0;
             middle = (pkt ! 3 AND 0x04) \<noteq> 0;
             md1 = (if ALPS_QUIRK_TRACKSTICK_BUTTONS \<notin> quirks md \<and> (left \<or> middle \<or> right)
                    then md\<lparr>quirks := insert ALPS_QUIRK_TRACKSTICK_BUTTONS (quirks md)\<rparr>
                    else md);
             raw_buttons = buttons_of left right middle;
             x = fst (trackstick_motion pkt);
             y = snd (trackstick_motion pkt);
             buttons = (if raw_buttons = 0 then lastbuttons ts else raw_buttons);
             ts1 = ts\<lparr>lastbuttons := buttons, lastx2 := x, lasty2 := y,
                      ignoreall := (x \<noteq> 0 \<or> y \<noteq> 0)\<rparr>
         in if (x = 0 \<and> y = 0) \<or> (buttons AND 0x04) = 0
            then (md1, ts1, [RelativePointerEvent (x + x div 2) (y + y div 2) buttons])
            else (md1, ts1, [ScrollWheelEvent (- y) (- x) 0])))"

section \<open>The head of the gesture evaluation\<close>

text \<open>
  Where a call of \<^verbatim>\<open>dispatchEventsWithInfo\<close> ends, with the driver state and the events
  dispatched up to that point: at the guard for touches shortly after typing, at the
  guard of the ignore-all flag, or in the tap resolution and per-mode motion that follow
  the finger-lift block (carrying the locals \<^verbatim>\<open>x\<close>, \<^verbatim>\<open>y\<close> and \<^verbatim>\<open>buttons\<close>).
\<close>

datatype 's dispatch_outcome =
    ReturnedAfterTyping 's "event list"
  | ReturnedIgnoreAll 's "event list"
  | ContinuesToTaps 's "event list" int int u32

text \<open>The scaling of the raw coordinates to the axis with the most resolution.\<close>

definition scale_axes :: "settings \<Rightarrow> int \<Rightarrow> int \<Rightarrow> fault + (int \<times> int)" where
  "scale_axes cfg xraw yraw =
     (if xupmm cfg < yupmm cfg
      then (if xupmm cfg = 0 then Inl DivisionByZero
            else Inr (c_div (xraw * yupmm cfg) (xupmm cfg), yraw))
      else if yupmm cfg < xupmm cfg
      then (if yupmm cfg = 0 then Inl DivisionByZero
            else Inr (xraw, c_div (yraw * xupmm cfg) (yupmm cfg)))
      else Inr (xraw, yraw))"

definition reset_filters ::
  "('flt, 'mb) collaborators \<Rightarrow> ('flt, 'mb) touch_state \<Rightarrow> ('flt, 'mb) touch_state" where
  "reset_filters hp ts =
     ts\<lparr>x_undo := undo_reset hp (x_undo ts), y_undo := undo_reset hp (y_undo ts),
        x_avg := avg_reset hp (x_avg ts), y_avg := avg_reset hp (y_avg ts)\<rparr>"

text \<open>
  The statements of \<^verbatim>\<open>dispatchEventsWithInfo\<close> before its two guards, in the order
  of the source. First the button bookkeeping and the two conditional calls of
  \<^verbatim>\<open>middleButton\<close>: the result is the local \<^verbatim>\<open>buttons\<close>, the state and the events
  \<^verbatim>\<open>middleButton\<close> dispatched.
\<close>

definition prelude_buttons ::
  "('flt, 'mb) collaborators \<Rightarrow> settings \<Rightarrow> u64 \<Rightarrow> ('flt, 'mb) touch_state \<Rightarrow> abs_sample
     \<Rightarrow> u32 \<times> ('flt, 'mb) touch_state \<times> event list" where
  "prelude_buttons hp cfg now_abs ts0 smp =
     (let fingers_count = s_fingers smp;
          buttonsraw = s_buttons smp;
          ts1 = ts0\<lparr>lastbuttons := buttonsraw\<rparr>;
          r1 = (if \<not> clickpadtype cfg \<or> fingers_count = 3
                then (case middleButton hp (mbutton ts1) buttonsraw now_abs
                             (if fingers_count = 3 then FromPassthru else FromTrackpad) of
                        (b, m, ev) \<Rightarrow> (b, ts1\<lparr>mbutton := m\<rparr>, ev))
                else (buttonsraw, ts1, []))
      in if last_fingers (fst (snd r1)) = 0 \<and> 0 < fingers_count
         then (case middleButton hp (mbutton (fst (snd r1)))
                      (buttonsraw OR passbuttons (fst (snd r1))) now_abs FromCancel of
                 (b, m, ev) \<Rightarrow> (b, (fst (snd r1))\<lparr>mbutton := m\<rparr>, snd (snd r1) @ ev))
         else r1)"

text \<open>The reaction to a change of the finger count.\<close>

definition prelude_finger_change ::
  "('flt, 'mb) collaborators \<Rightarrow> settings \<Rightarrow> ('flt, 'mb) touch_state \<Rightarrow> int
     \<Rightarrow> ('flt, 'mb) touch_state" where
  "prelude_finger_change hp cfg ts fingers_count =
     (let ts1 = (if 0 < last_fingers ts \<and> 0 < fingers_count \<and> last_fingers ts \<noteq> fingers_count
                 then ts\<lparr>ignoredeltas := ignoredeltasstart cfg\<rparr> else ts)
      in if last_fingers ts1 \<noteq> fingers_count then reset_filters hp ts1 else ts1)"

text \<open>The optional un-smoothing and smoothing of the coordinates.\<close>

definition prelude_filters ::
  "('flt, 'mb) collaborators \<Rightarrow> settings \<Rightarrow> ('flt, 'mb) touch_state \<Rightarrow> int \<times> int
     \<Rightarrow> int \<times> int \<times> ('flt, 'mb) touch_state" where
  "prelude_filters hp cfg ts xy =
     (let r1 = (if unsmoothinput cfg
                then (case undo_filter hp (x_undo ts) (fst xy) of
                        (xf, fx) \<Rightarrow>
                          (case undo_filter hp (y_undo ts) (snd xy) of
                             (yf, fy) \<Rightarrow> (xf, yf, ts\<lparr>x_undo := fx, y_undo := fy\<rparr>)))
                else (fst xy, snd xy, ts))
      in if smoothinput cfg
         then (case avg_filter hp (x_avg (snd (snd r1))) (fst r1) of
                 (xf, fx) \<Rightarrow>
                   (case avg_filter hp (y_avg (snd (snd r1))) (fst (snd r1)) of
                      (yf, fy) \<Rightarrow> (xf, yf, (snd (snd r1))\<lparr>x_avg := fx, y_avg := fy\<rparr>)))
         else r1)"

text \<open>The countdown that ignores deltas after a finger change.\<close>

definition prelude_ignoredeltas ::
  "('flt, 'mb) collaborators \<Rightarrow> ('flt, 'mb) touch_state \<Rightarrow> int \<Rightarrow> int
     \<Rightarrow> ('flt, 'mb) touch_state" where
  "prelude_ignoredeltas hp ts x y =
     (if ignoredeltas ts \<noteq> 0
      then (let t = ts\<lparr>lastx := x, lasty := y, ignoredeltas := ignoredeltas ts - 1\<rparr>
            in if ignoredeltas t = 0 then reset_filters hp t else t)
      else ts)"

text \<open>
  All of them in sequence: the state, the events of \<^verbatim>\<open>middleButton\<close>, and the locals
  \<^verbatim>\<open>x\<close>, \<^verbatim>\<open>y\<close>, \<^verbatim>\<open>buttons\<close> at the first guard.
\<close>

definition dispatch_prelude ::
  "('flt, 'mb) collaborators \<Rightarrow> settings \<Rightarrow> u64 \<Rightarrow> ('flt, 'mb) touch_state \<Rightarrow> abs_sample
     \<Rightarrow> int \<times> int \<Rightarrow> ('flt, 'mb) touch_state \<times> event list \<times> int \<times> int \<times> u32" where
  "dispatch_prelude hp cfg now_abs ts0 smp xy =
     (case prelude_buttons hp cfg now_abs ts0 smp of
        (buttons, ts1, ev) \<Rightarrow>
          (case prelude_filters hp cfg (prelude_finger_change hp cfg ts1 (s_fingers smp)) xy of
             (x, y, ts2) \<Rightarrow> (prelude_ignoredeltas hp ts2 x y, ev, x, y, buttons)))"

text \<open>
  The check for the start of a momentum scroll in the finger-lift block: the state left
  behind and the timer armed, if any.
\<close>

definition momentum_start ::
  "settings \<Rightarrow> ('flt, 'mb) touch_state \<Rightarrow> ('flt, 'mb) touch_state \<times> event list" where
  "momentum_start cfg ts =
     (if touchmode ts = MODE_MTOUCH \<and> momentumscroll cfg \<and> momentumscrolltimer cfg \<noteq> 0
      then (if momentumscrollsamplesmin cfg < hist_count (dy_history ts)
            then (let ts1 = ts\<lparr>momentumscrollinterval :=
                                 hist_newest (time_history ts) - hist_oldest (time_history ts)\<rparr>
                  in if momentumscrollinterval ts1 \<noteq> 0
                     then (let ts2 = ts1\<lparr>momentumscrollsum := hist_sum (dy_history ts1)\<rparr>
                           in (ts2\<lparr>momentumscrollcurrent :=
                                      momentumscrolltimer cfg * word_of_int (- momentumscrollsum ts2),
                                    momentumscrollrest1 := 0, momentumscrollrest2 := 0\<rparr>,
                               [TimerTimeout ScrollTimer (momentumscrolltimer cfg)]))
                     else (ts1, []))
            else (ts, []))
      else (ts, []))"

text \<open>
  The finger-lift block up to the reset of the two histories; the tap resolution that
  follows in the source is outside the model.
\<close>

definition finger_lifted ::
  "settings \<Rightarrow> u64 \<Rightarrow> ('flt, 'mb) touch_state \<Rightarrow> ('flt, 'mb) touch_state \<times> event list" where
  "finger_lifted cfg now_ns ts =
     (let ts1 = ts\<lparr>xrest := 0, yrest := 0, scrollrest := 0,
                   inSwipeLeft := 0, inSwipeRight := 0, inSwipeUp := 0, inSwipeDown := 0,
                   inSwipe4Left := 0, inSwipe4Right := 0, inSwipe4Up := 0, inSwipe4Down := 0,
                   xmoved := 0, ymoved := 0, untouchtime := now_ns, tracksecondary := False\<rparr>
      in case momentum_start cfg ts1 of
           (ts2, ev) \<Rightarrow> (ts2\<lparr>time_history := [], dy_history := []\<rparr>, ev))"

text \<open>
  \<^verbatim>\<open>dispatchEventsWithInfo\<close> from its entry to the end of the momentum check. \<open>now_abs\<close>
  and \<open>now_ns\<close> are the clock readings of the call.
\<close>

definition dispatchEventsWithInfo ::
  "('flt, 'mb) collaborators \<Rightarrow> settings \<Rightarrow> u64 \<Rightarrow> u64 \<Rightarrow> ('flt, 'mb) touch_state \<Rightarrow> abs_sample
     \<Rightarrow> fault + ('flt, 'mb) touch_state dispatch_outcome" where
  "dispatchEventsWithInfo hp cfg now_abs now_ns ts smp =
     (case scale_axes cfg (s_x smp) (s_y smp) of
        Inl e \<Rightarrow> Inl e
      | Inr xy \<Rightarrow>
          (case dispatch_prelude hp cfg now_abs ts smp xy of
             (ts1, ev, x, y, buttons) \<Rightarrow>
               if outzone_wt cfg \<and> z_finger cfg < s_z smp
                  \<and> now_ns - keytime ts1 < maxaftertyping cfg
                  \<and> (x < zonel cfg \<or> zoner cfg < x \<or> y < zoneb cfg \<or> zonet cfg < y)
               then Inr (ReturnedAfterTyping ts1 ev)
               else if ignoreall ts1 then Inr (ReturnedIgnoreAll ts1 ev)
               else if s_z smp < z_finger cfg \<and> isTouchMode (touchmode ts1)
               then (case finger_lifted cfg now_ns ts1 of
                       (ts2, ev2) \<Rightarrow> Inr (ContinuesToTaps ts2 (ev @ ev2) x y buttons))
               else Inr (ContinuesToTaps ts1 ev x y buttons)))"

section \<open>Specification-side notions\<close>

text \<open>
  The number of maximal runs of set bits of a bitmap word, in the specification's words:
  the positions where a set bit follows a clear bit or starts the word.
\<close>

definition runs_on :: "u32 \<Rightarrow> nat" where
  "runs_on w = length (filter (\<lambda>i. bit w i \<and> (i = 0 \<or> \<not> bit w (i - 1))) [0..<32])"

text \<open>
  The same count on the remaining bits \<open>m\<close> of a scan whose previous bit was \<open>prev\<close>,
  over the lowest \<open>n\<close> positions.
\<close>

definition run_starts :: "nat \<Rightarrow> nat \<Rightarrow> nat \<Rightarrow> nat" where
  "run_starts m prev n =
     length (filter (\<lambda>i. bit m i \<and> (if i = 0 then prev = 0 else \<not> bit m (i - 1))) [0..<n])"



section \<open>Concrete inputs\<close>

text \<open>A zero-filled driver object, and the model data of three identified devices.\<close>

definition md_zero :: alps_data where
  "md_zero =
     \<lparr>proto_version = ALPS_PROTO_V1, byte0 = 0, mask0 = 0, flags = 0,
      x_max = 0, y_max = 0, x_bits = 0, y_bits = 0, pktsize = 0,
      nibble_commands = NibblesUnset, addr_command = AddrUnset,
      multi_packet = 0, multi_data = [0, 0, 0, 0, 0, 0], second_touch = 0, quirks = {},
      fingers = 0, hw_init = HwInitUnset, process_packet = ProcessUnset,
      decode_fields = DecodeUnset\<rparr>"

definition md_pinnacle :: alps_data where
  "md_pinnacle = (setDefaults (md_zero\<lparr>proto_version := ALPS_PROTO_V3\<rparr>))\<lparr>pktsize := 6\<rparr>"

definition md_v4 :: alps_data where
  "md_v4 = (setDefaults (md_zero\<lparr>proto_version := ALPS_PROTO_V4\<rparr>))\<lparr>pktsize := 8\<rparr>"

definition fields_zero :: alps_fields where
  "fields_zero =
     \<lparr>f_x_map = 0, f_y_map = 0, f_fingers = 0, f_x = 0, f_y = 0, f_z = 0,
      f_x1 = 0, f_y1 = 0, f_x2 = 0, f_y2 = 0, f_first_mp = False, f_is_mp = False,
      f_left = False, f_right = False, f_middle = False,
      f_ts_left = False, f_ts_right = False, f_ts_middle = False\<rparr>"

text \<open>A transport that answers the identification of the Toshiba Tecra A11-11L.\<close>

definition transport_v4 :: "u8 \<Rightarrow> transport" where
  "transport_v4 e6_byte0 =
     \<lparr>e6_report = Some (e6_byte0, 0x00, 0x0a), e7_report = Some (0x73, 0x02, 0x64),
      ec_report = Some (0x88, 0x07, 0x8a), exitCommandMode_ok = True,
      probeTrackstickV3_nonzero = False\<rparr>"

text \<open>
  A Pinnacle position packet of a single touch (x = 256, y = 512, z = 32), the same
  position packet announcing a multi-packet sequence, a bitmap packet reporting two fingers (x bitmap with runs at bits 2 and 8,
  y bitmap with one run at bit 2), a bitmap packet reporting two fingers with an empty
  x bitmap, and the model data after the position packet was stored, with no corner
  selected.
\<close>

definition single_touch_packet :: "u8 list" where
  "single_touch_packet = [0x8f, 0x10, 0x20, 0x00, 0x00, 0x20]"

definition position_packet :: "u8 list" where
  "position_packet = [0x8f, 0x10, 0x20, 0x00, 0x40, 0x20]"

definition bitmap_packet :: "u8 list" where
  "bitmap_packet = [0xcf, 0x41, 0x02, 0x00, 0x00, 0x01]"

definition empty_x_bitmap_packet :: "u8 list" where
  "empty_x_bitmap_packet = [0xcf, 0x00, 0x01, 0x00, 0x00, 0x01]"

definition md_sequence :: alps_data where
  "md_sequence = md_pinnacle\<lparr>multi_packet := 1, multi_data := position_packet,
                              second_touch := - 1\<rparr>"

text \<open>The fields \<^verbatim>\<open>processBitmap\<close> receives for the two packets above.\<close>

definition fields_sequence :: alps_fields where
  "fields_sequence =
     decodePinnacle (decodePinnacle fields_zero bitmap_packet) position_packet"


text \<open>
  Three consecutive V4 packets (x = 256, y = 512, z = 32) carrying the bitmap bytes
  \<open>43 03\<close>, \<open>03 03\<close> and \<open>00 00\<close>, the first with the sync bit: an x bitmap
  with runs at bits 2 and 10, a y bitmap with runs at bits 0 and 5.
\<close>

definition v4_packet1 :: "u8 list" where
  "v4_packet1 = [0x8f, 0x10, 0x20, 0x00, 0x00, 0x20, 0x43, 0x03]"

definition v4_packet2 :: "u8 list" where
  "v4_packet2 = [0x8f, 0x10, 0x20, 0x00, 0x00, 0x20, 0x03, 0x03]"

definition v4_packet3 :: "u8 list" where
  "v4_packet3 = [0x8f, 0x10, 0x20, 0x00, 0x00, 0x20, 0x00, 0x00]"

text \<open>
  Helpers that do nothing (filters that pass their input through, a middle-button
  machine that returns the buttons it is given and dispatches nothing), a configuration
  with momentum scrolling enabled and a minimum of 3 samples, and a driver state in
  multi-touch mode whose history holds exactly 3 vertical deltas over a window of 200.
\<close>

definition plain_helpers :: "(unit, unit) collaborators" where
  "plain_helpers =
     \<lparr>undo_reset = (\<lambda>s. s), avg_reset = (\<lambda>s. s),
      undo_filter = (\<lambda>s v. (v, s)), avg_filter = (\<lambda>s v. (v, s)),
      middleButton = (\<lambda>m b t w. (b, m, []))\<rparr>"

definition settings_example :: settings where
  "settings_example =
     \<lparr>xupmm = 50, yupmm = 50, clickpadtype = False, ignoredeltasstart = 0,
      unsmoothinput = False, smoothinput = False, outzone_wt = False, z_finger = 45,
      maxaftertyping = 500000000, zonel = 0, zoner = 0, zoneb = 0, zonet = 0,
      momentumscroll = True, momentumscrolltimer = 10000000,
      momentumscrollsamplesmin = 3\<rparr>"

definition touch_example :: "(unit, unit) touch_state" where
  "touch_example =
     \<lparr>touchmode = MODE_MTOUCH, last_fingers = 2, lastbuttons = 0, passbuttons = 0,
      ignoredeltas = 0, lastx = 0, lasty = 0, lastx2 = 0, lasty2 = 0, keytime = 0,
      ignoreall = False, xrest = 0, yrest = 0, scrollrest = 0,
      inSwipeLeft = 0, inSwipeRight = 0, inSwipeUp = 0, inSwipeDown = 0,
      inSwipe4Left = 0, inSwipe4Right = 0, inSwipe4Up = 0, inSwipe4Down = 0,
      xmoved = 0, ymoved = 0, untouchtime = 0, tracksecondary = False,
      dy_history = [5, 6, 7], time_history = [100, 200, 300],
      momentumscrollinterval = 0, momentumscrollsum = 0, momentumscrollcurrent = 0,
      momentumscrollrest1 = 0, momentumscrollrest2 = 0,
      x_undo = (), y_undo = (), x_avg = (), y_avg = (), mbutton = ()\<rparr>"

text \<open>A release sample (pressure 0) and a touch sample at x = 100.\<close>

definition release_sample :: abs_sample where
  "release_sample = \<lparr>s_x = 0, s_y = 0, s_z = 0, s_fingers = 0, s_buttons = 0\<rparr>"

definition touch_sample :: abs_sample where
  "touch_sample = \<lparr>s_x = 100, s_y = 80, s_z = 60, s_fingers = 2, s_buttons = 0\<rparr>"

text \<open>A trackstick packet whose two motion bytes are both \<open>0x7f\<close>.\<close>

definition big_trackstick_packet :: "u8 list" where
  "big_trackstick_packet = [0x40, 0x7f, 0x7f, 0x00, 0x00, 0x3f]"

text \<open>
  What the statements before the two guards of \<^verbatim>\<open>dispatchEventsWithInfo\<close> leave as it
  was in the driver state: everything but the button bookkeeping, the middle-button
  machine, the delta-ignoring countdown with the last position, and the four filters.
\<close>

definition prelude_frame ::
  "('flt, 'mb) touch_state \<Rightarrow> ('flt, 'mb) touch_state \<Rightarrow> bool" where
  "prelude_frame ts ts' =
     (touchmode ts' = touchmode ts \<and> last_fingers ts' = last_fingers ts
      \<and> passbuttons ts' = passbuttons ts \<and> lastx2 ts' = lastx2 ts \<and> lasty2 ts' = lasty2 ts
      \<and> keytime ts' = keytime ts \<and> ignoreall ts' = ignoreall ts
      \<and> xrest ts' = xrest ts \<and> yrest ts' = yrest ts \<and> scrollrest ts' = scrollrest ts
      \<and> inSwipeLeft ts' = inSwipeLeft ts \<and> inSwipeRight ts' = inSwipeRight ts
      \<and> inSwipeUp ts' = inSwipeUp ts \<and> inSwipeDown ts' = inSwipeDown ts
      \<and> inSwipe4Left ts' = inSwipe4Left ts \<and> inSwipe4Right ts' = inSwipe4Right ts
      \<and> inSwipe4Up ts' = inSwipe4Up ts \<and> inSwipe4Down ts' = inSwipe4Down ts
      \<and> xmoved ts' = xmoved ts \<and> ymoved ts' = ymoved ts
      \<and> untouchtime ts' = untouchtime ts \<and> tracksecondary ts' = tracksecondary ts
      \<and> dy_history ts' = dy_history ts \<and> time_history ts' = time_history ts
      \<and> momentumscrollinterval ts' = momentumscrollinterval ts
      \<and> momentumscrollsum ts' = momentumscrollsum ts
      \<and> momentumscrollcurrent ts' = momentumscrollcurrent ts
      \<and> momentumscrollrest1 ts' = momentumscrollrest1 ts
      \<and> momentumscrollrest2 ts' = momentumscrollrest2 ts)"
section \<open>Identification: the V4 signature and the E6 check\<close>

lemma matchTable_v4:
  "matchTable md (0x73, 0x02, 0x64) (c0, c1, 0x8a) =
     Some ((setDefaults (md\<lparr>proto_version := ALPS_PROTO_V4\<rparr>))
             \<lparr>flags := 0, byte0 := 0x8f, mask0 := 0x8f\<rparr>)"
  by (simp add: matchTable_def alps_model_data_def model_row_def)

lemma setDefaults_proto_version: "proto_version (setDefaults md) = proto_version md"
  by (cases "proto_version md") (simp_all add: setDefaults_def)

text \<open>
  C7. Whenever the E7 report is \<open>{0x73, 0x02, 0x64}\<close> and the third byte of the EC
  report is \<open>0x8A\<close>, the model table matches with protocol version V4 (whatever the
  other EC bytes and the previous model data are); an identification that reaches
  the table (E6 accepted, reports retrieved, command mode left) therefore succeeds
  with V4, and \<^verbatim>\<open>deviceSpecificInit\<close> then sets the packet size to 8.
\<close>

theorem v4_signature_selects_v4:
  assumes "e6_report tr = Some e6" and "\<not> e6_invalid e6"
    and "e7_report tr = Some (0x73, 0x02, 0x64)"
    and "ec_report tr = Some (c0, c1, 0x8a)"
    and "exitCommandMode_ok tr"
  shows "(\<exists>md'. matchTable md (0x73, 0x02, 0x64) (c0, c1, 0x8a) = Some md'
              \<and> proto_version md' = ALPS_PROTO_V4)
       \<and> fst (identify tr md) = kIOReturnSuccess
       \<and> proto_version (snd (identify tr md)) = ALPS_PROTO_V4
       \<and> proto_version (snd (deviceSpecificInit tr hw md)) = ALPS_PROTO_V4
       \<and> pktsize (snd (deviceSpecificInit tr hw md)) = 8"
proof -
  have idm: "identify tr md =
      (kIOReturnSuccess, (setDefaults (md\<lparr>proto_version := ALPS_PROTO_V4\<rparr>))
                           \<lparr>flags := 0, byte0 := 0x8f, mask0 := 0x8f\<rparr>)"
    using assms by (simp add: identify_def identify_match_def matchTable_v4)
  show ?thesis
    by (simp add: matchTable_v4 idm deviceSpecificInit_def call_hw_init_def
          setDefaults_proto_version)
qed

theorem v4_signature_selects_v4_witness:
  "e6_report (transport_v4 0) = Some (0x00, 0x00, 0x0a)
   \<and> \<not> e6_invalid (0x00, 0x00, 0x0a)
   \<and> fst (identify (transport_v4 0) md_zero) = kIOReturnSuccess
   \<and> proto_version (snd (deviceSpecificInit (transport_v4 0)
                          \<lparr>hw_init_ok = True, trackstick_nodevice = False\<rparr> md_zero))
       = ALPS_PROTO_V4
   \<and> pktsize (snd (deviceSpecificInit (transport_v4 0)
                    \<lparr>hw_init_ok = True, trackstick_nodevice = False\<rparr> md_zero)) = 8"
  using v4_signature_selects_v4 [of "transport_v4 0" "(0x00, 0x00, 0x0a)" "0x88" "0x07" md_zero
      "\<lparr>hw_init_ok = True, trackstick_nodevice = False\<rparr>"]
  by (simp add: transport_v4_def e6_invalid_def)

text \<open>
  C8, as stated: identification rejects every device whose E6 report is neither
  \<open>{0x00, 0x00, 10}\<close> nor \<open>{0x00, 0x00, 100}\<close>. The code masks byte 0 with \<open>0xf8\<close>:
  the report \<open>{0x07, 0x00, 10}\<close> (all three button bits set) is not rejected, and the
  identification goes on to match the model table.
\<close>

theorem e6_buttons_pressed_counterexample:
  "(0x07, 0x00, 0x0a) \<noteq> ((0x00, 0x00, 10) :: ALPSStatus_t)
   \<and> (0x07, 0x00, 0x0a) \<noteq> ((0x00, 0x00, 100) :: ALPSStatus_t)
   \<and> e6_report (transport_v4 0x07) = Some (0x07, 0x00, 0x0a)
   \<and> fst (identify (transport_v4 0x07) md_zero) = kIOReturnSuccess"
  by (simp add: transport_v4_def identify_def e6_invalid_def identify_match_def matchTable_v4)

text \<open>
  C8, amended: identification returns the invalid-device failure, leaving the model
  data untouched whatever the E7 and EC retrievals would answer, unless the retrieved
  E6 report has bits 3 to 7 of byte 0 clear, byte 1 equal to 0 and byte 2 equal to 10
  or 100; bits 0 to 2 of byte 0 (the button state) are not examined.
\<close>

theorem e6_check_rejects:
  assumes "e6_report tr = Some (b0, b1, b2)"
    and "(b0 AND 0xf8) \<noteq> 0 \<or> b1 \<noteq> 0 \<or> (b2 \<noteq> 10 \<and> b2 \<noteq> 100)"
  shows "identify tr md = (kIOReturnInvalid, md)"
  using assms by (simp add: identify_def e6_invalid_def)

theorem e6_check_rejects_witness:
  "e6_report (transport_v4 0x08) = Some (0x08, 0x00, 0x0a)
   \<and> identify (transport_v4 0x08) md_zero = (kIOReturnInvalid, md_zero)"
  using e6_check_rejects [of "transport_v4 0x08" "0x08" "0x00" "0x0a" md_zero]
  by (simp add: transport_v4_def)

section \<open>V3 touchpad packets: the multi-touch bit outside a sequence\<close>

text \<open>
  C9. A packet whose decoded is-multi-touch bit is set while no multi-packet sequence
  is in progress (\<^verbatim>\<open>multi_packet\<close> is 0) is rejected: \<^verbatim>\<open>processTouchpadPacketV3\<close>
  returns without calling \<^verbatim>\<open>dispatchEventsWithInfo\<close>, so no event is dispatched, and
  the model data is unchanged.
\<close>

theorem stray_bitmap_packet_rejected:
  assumes "call_decode_fields (decode_fields md) f0 pkt = Inr f"
    and "f_is_mp f" and "multi_packet md = 0"
  shows "processTouchpadPacketV3 f0 md pkt = Inr (md, None)"
  using assms by (simp add: processTouchpadPacketV3_def v3_multi_packet_block_def)

theorem stray_bitmap_packet_rejected_witness:
  "multi_packet md_pinnacle = 0
   \<and> f_is_mp (decodePinnacle fields_zero [0xcf, 0x00, 0x01, 0x00, 0x00, 0x01])
   \<and> processTouchpadPacketV3 fields_zero md_pinnacle [0xcf, 0x00, 0x01, 0x00, 0x00, 0x01]
       = Inr (md_pinnacle, None)"
proof -
  have d: "decode_fields md_pinnacle = DecodePinnacle" and m: "multi_packet md_pinnacle = 0"
    by (simp_all add: md_pinnacle_def setDefaults_def md_zero_def)
  have mp: "f_is_mp (decodePinnacle fields_zero [0xcf, 0x00, 0x01, 0x00, 0x00, 0x01])"
    by (simp add: decodePinnacle_def pb_def Let_def)
  have c: "call_decode_fields (decode_fields md_pinnacle) fields_zero
             [0xcf, 0x00, 0x01, 0x00, 0x00, 0x01]
           = Inr (decodePinnacle fields_zero [0xcf, 0x00, 0x01, 0x00, 0x00, 0x01])"
    by (simp add: d call_decode_fields_def)
  show ?thesis
    using stray_bitmap_packet_rejected [OF c mp m] mp m by simp
qed
section \<open>Bitmap scan: counting runs\<close>

lemma loop_0 [simp]: "bitmap_points_loop 0 i prev pt lh k = (lh, k)"
  by (simp add: bitmap_points_loop.simps)

lemma loop_even:
  "m \<noteq> 0 \<Longrightarrow> even m \<Longrightarrow>
   bitmap_points_loop m i prev pt lh k =
     bitmap_points_loop (m div 2) (i + 1) 0 (if prev \<noteq> 0 then PointHigh else pt) lh k"
  by (subst bitmap_points_loop.simps) (simp add: even_iff_mod_2_eq_zero)

lemma loop_odd:
  "odd m \<Longrightarrow>
   bitmap_points_loop m i prev pt lh k =
     (if prev = 0
      then bitmap_points_loop (m div 2) (i + 1) (Suc 0) pt
             (point_update pt (\<lambda>p. p\<lparr>num_bits := num_bits p + 1\<rparr>)
                (point_update pt (\<lambda>p. p\<lparr>start_bit := i, num_bits := 0\<rparr>) lh)) (k + 1)
      else bitmap_points_loop (m div 2) (i + 1) (Suc 0) pt
             (point_update pt (\<lambda>p. p\<lparr>num_bits := num_bits p + 1\<rparr>) lh) k)"
  by (subst bitmap_points_loop.simps) (auto simp: odd_iff_mod_2_eq_one)

lemma run_starts_0: "run_starts 0 prev n = 0"
  by (simp add: run_starts_def)

lemma run_starts_Suc:
  "run_starts m prev (Suc n) =
     (if odd m \<and> prev = 0 then 1 else 0) + run_starts (m div 2) (m mod 2) n"
proof -
  have upt: "[0..<Suc n] = 0 # map Suc [0..<n]"
    by (metis map_Suc_upt upt_conv_Cons zero_less_Suc)
  have tl_eq:
    "filter (\<lambda>i. bit m i \<and> (if i = 0 then prev = 0 else \<not> bit m (i - 1))) (map Suc [0..<n])
      = map Suc (filter (\<lambda>i. bit (m div 2) i \<and>
            (if i = 0 then m mod 2 = 0 else \<not> bit (m div 2) (i - 1))) [0..<n])"
    unfolding filter_map
    by (rule arg_cong [where f = "map Suc"], rule filter_cong)
       (auto simp: bit_Suc bit_0 odd_iff_mod_2_eq_one gr0_conv_Suc)
  show ?thesis
    unfolding run_starts_def upt
    by (simp add: tl_eq bit_0 del: upt_Suc)
qed

lemma loop_count:
  "m < 2 ^ n \<Longrightarrow>
   snd (bitmap_points_loop m i prev pt lh k) = k + int (run_starts m prev n)"
proof (induction n arbitrary: m i prev pt lh k)
  case 0
  then show ?case by (simp add: run_starts_def)
next
  case (Suc n)
  show ?case
  proof (cases "m = 0")
    case True
    then show ?thesis by (simp add: run_starts_0)
  next
    case False
    have half: "m div 2 < 2 ^ n" using Suc.prems by simp
    show ?thesis
      using False
      by (subst bitmap_points_loop.simps)
         (simp add: Suc.IH [OF half] run_starts_Suc odd_iff_mod_2_eq_one)
  qed
qed

lemma runs_on_unat: "runs_on w = run_starts (unat w) 0 32"
  unfolding runs_on_def run_starts_def
  by (rule arg_cong [where f = length], rule filter_cong) (auto simp: bit_unsigned_iff)

lemma scan_count: "snd (alps_get_bitmap_points w lh k) = k + int (runs_on w)"
proof -
  have "unat w < 2 ^ 32" using unsigned_less [of w] by simp
  then show ?thesis
    by (simp add: alps_get_bitmap_points_def loop_count runs_on_unat)
qed

lemma axis_points_count: "snd (axis_points w) = int (runs_on w)"
  using scan_count [of w "(zero_point, zero_point)" 0]
  by (cases "alps_get_bitmap_points w (zero_point, zero_point) 0") (simp add: axis_points_def)

section \<open>Bitmap scan: a single run\<close>

lemma loop_shift:
  "m \<noteq> 0 \<Longrightarrow>
   bitmap_points_loop (m * 2 ^ s) i 0 pt lh k = bitmap_points_loop m (i + int s) 0 pt lh k"
proof (induction s arbitrary: i)
  case 0
  then show ?case by simp
next
  case (Suc s)
  have "bitmap_points_loop (m * 2 ^ Suc s) i 0 pt lh k
          = bitmap_points_loop (m * 2 ^ s) (i + 1) 0 pt lh k"
    using Suc.prems by (subst loop_even) simp_all
  also have "\<dots> = bitmap_points_loop m (i + 1 + int s) 0 pt lh k"
    by (rule Suc.IH [OF Suc.prems])
  finally show ?case by (simp add: add.commute add.left_commute)
qed

lemma ones_Suc: "(2::nat) ^ Suc n - Suc 0 = Suc (2 * (2 ^ n - Suc 0))"
proof -
  define a where "a = (2::nat) ^ n"
  have "1 \<le> a" by (simp add: a_def)
  then have "2 * a - 1 = Suc (2 * (a - 1))" by arith
  then show ?thesis by (simp add: a_def)
qed

lemma loop_Suc_double:
  "bitmap_points_loop (Suc (2 * m)) i prev pt lh k =
     (if prev = 0
      then bitmap_points_loop m (i + 1) (Suc 0) pt
             (point_update pt (\<lambda>p. p\<lparr>num_bits := num_bits p + 1\<rparr>)
                (point_update pt (\<lambda>p. p\<lparr>start_bit := i, num_bits := 0\<rparr>) lh)) (k + 1)
      else bitmap_points_loop m (i + 1) (Suc 0) pt
             (point_update pt (\<lambda>p. p\<lparr>num_bits := num_bits p + 1\<rparr>) lh) k)"
  by (subst loop_odd) simp_all

lemma loop_ones:
  "bitmap_points_loop (2 ^ n - Suc 0) i (Suc 0) PointLow (lo, hi) k
     = ((lo\<lparr>num_bits := num_bits lo + int n\<rparr>, hi), k)"
proof (induction n arbitrary: i lo)
  case 0
  then show ?case by simp
next
  case (Suc n)
  show ?case
    unfolding ones_Suc loop_Suc_double
    by (simp add: Suc.IH point_update_def)
qed

lemma single_run:
  "bitmap_points_loop ((2 ^ Suc n - Suc 0) * 2 ^ s) 0 0 PointLow (lo, hi) k
           = ((lo\<lparr>start_bit := int s, num_bits := int (Suc n)\<rparr>, hi), k + 1)"
proof -
  have "bitmap_points_loop (Suc (2 * (2 ^ n - Suc 0)) * 2 ^ s) 0 0 PointLow (lo, hi) k
          = bitmap_points_loop (Suc (2 * (2 ^ n - Suc 0))) (0 + int s) 0 PointLow (lo, hi) k"
    by (rule loop_shift) simp
  also have "\<dots> = ((lo\<lparr>start_bit := int s, num_bits := int (Suc n)\<rparr>, hi), k + 1)"
    unfolding loop_Suc_double
    by (simp add: loop_ones point_update_def)
  finally show ?thesis
    unfolding ones_Suc .
qed

lemma scan_single_run:
  assumes "0 < n" and "unat w = (2 ^ n - 1) * 2 ^ s"
  shows "alps_get_bitmap_points w (lo, hi) k
           = ((lo\<lparr>start_bit := int s, num_bits := int n\<rparr>, hi), k + 1)"
proof -
  obtain n' where n: "n = Suc n'" using assms(1) by (cases n) auto
  show ?thesis
    unfolding alps_get_bitmap_points_def assms(2) n
    using single_run [of n' s lo hi k] by simp
qed

text \<open>
  C3, as stated: a single run of width \<open>n\<close> gives the low point \<open>floor (n / 2)\<close> bits
  and the high point the remainder, the high point starting right after the low
  point's bits. For the run of width 3 at bit 2 (the word 28) the code leaves the low
  point 2 bits, not 1, gives the high point 1 bit, not 2, and starts the high point at
  bit 3, inside the low point's bits 2 to 3.
\<close>

theorem split_odd_run_counterexample:
  "unat (28 :: u32) = (2 ^ 3 - 1) * 2 ^ 2
   \<and> axis_points 28 = ((\<lparr>start_bit = 2, num_bits = 2\<rparr>, \<lparr>start_bit = 3, num_bits = 1\<rparr>), 1)
   \<and> num_bits (fst (fst (axis_points 28))) \<noteq> 3 div 2
   \<and> start_bit (snd (fst (axis_points 28)))
       < start_bit (fst (fst (axis_points 28))) + num_bits (fst (fst (axis_points 28)))"
proof -
  have ap: "axis_points 28
      = ((\<lparr>start_bit = 2, num_bits = 2\<rparr>, \<lparr>start_bit = 3, num_bits = 1\<rparr>), 1)"
    by (simp add: axis_points_def alps_get_bitmap_points_def bitmap_points_loop.simps
          point_update_def split_single_def zero_point_def c_div_def Let_def)
  show ?thesis by (simp add: ap)
qed

text \<open>
  C3, amended: for an axis bitmap whose set bits are exactly one run of width \<open>n\<close>
  starting at bit \<open>s\<close>, one contact is counted, the low point keeps
  \<open>n - floor (n / 2)\<close> bits from bit \<open>s\<close>, and the synthetic high point gets
  \<open>floor (n / 2)\<close> bits, but at least 1, starting at bit \<open>s + floor (n / 2)\<close>. For an
  even \<open>n\<close> this is the split of the claim: \<open>n / 2\<close> bits each, the high point right
  after the low point.
\<close>

theorem split_single_run:
  assumes "0 < n" and "unat bmap = (2 ^ n - 1) * 2 ^ s"
  shows "axis_points bmap =
     ((\<lparr>start_bit = int s, num_bits = int n - int n div 2\<rparr>,
       \<lparr>start_bit = int s + int n div 2, num_bits = max (int n div 2) 1\<rparr>), 1)"
proof -
  have scan: "alps_get_bitmap_points bmap (zero_point, zero_point) 0
                = ((zero_point\<lparr>start_bit := int s, num_bits := int n\<rparr>, zero_point), 1)"
    using scan_single_run [OF assms, of zero_point zero_point 0] by simp
  have half: "c_div (int n) 2 = int n div 2"
    using assms(1) by (simp add: c_div_def)
  show ?thesis
    unfolding axis_points_def scan
    by (simp add: split_single_def zero_point_def half Let_def)
qed

theorem split_single_run_witness:
  "(0::nat) < 4 \<and> unat (0xf0 :: u32) = (2 ^ 4 - 1) * 2 ^ 4
   \<and> axis_points 0xf0 = ((\<lparr>start_bit = 4, num_bits = 2\<rparr>, \<lparr>start_bit = 6, num_bits = 2\<rparr>), 1)"
  using split_single_run [of 4 "0xf0" 4] by simp
section \<open>The reconstructor: finger count and corner selection\<close>

lemma c_div_nonneg: "0 \<le> a \<Longrightarrow> 0 < b \<Longrightarrow> c_div a b = a div b"
  by (cases "a = 0") (simp_all add: c_div_def)

lemma c_mod_nonneg: "0 \<le> a \<Longrightarrow> 0 < b \<Longrightarrow> c_mod a b = a mod b"
  by (simp add: c_mod_def c_div_nonneg minus_mult_div_eq_mod)

lemma length_corners [simp]: "length (corners md f) = 4"
  by (simp add: corners_def Let_def)

lemma closest_loop_index:
  "closest_loop fx fy cs i st cl = st
   \<or> (i \<le> closest_loop fx fy cs i st cl \<and> closest_loop fx fy cs i st cl < i + int (length cs))"
proof (induction cs arbitrary: i st cl)
  case Nil
  then show ?case by simp
next
  case (Cons c cs)
  define d where
    "d = int32 (int32 (int32 (fx - fst c) * int32 (fx - fst c))
                + int32 (int32 (fy - snd c) * int32 (fy - snd c)))"
  show ?case
  proof (cases "d < cl")
    case True
    then have step: "closest_loop fx fy (c # cs) i st cl = closest_loop fx fy cs (i + 1) i d"
      by (simp add: d_def Let_def)
    from Cons.IH [of "i + 1" i d] show ?thesis
      unfolding step by auto
  next
    case False
    then have step: "closest_loop fx fy (c # cs) i st cl = closest_loop fx fy cs (i + 1) st cl"
      by (simp add: d_def Let_def)
    from Cons.IH [of "i + 1" st cl] show ?thesis
      unfolding step by auto
  qed
qed

lemma closest_loop_range:
  "closest_loop fx fy cs 0 (- 1) cl = - 1
   \<or> (0 \<le> closest_loop fx fy cs 0 (- 1) cl \<and> closest_loop fx fy cs 0 (- 1) cl < int (length cs))"
  using closest_loop_index [of fx fy cs 0 "- 1" cl] by auto

text \<open>
  The squared distance \<open>46341 * 46341\<close> exceeds \<open>2^31 - 1\<close> and wraps to a negative
  \<^verbatim>\<open>int\<close>: the search keeps that corner although the corner at (1, 0) is nearer.
\<close>

lemma closest_loop_wraps:
  "closest_loop 0 0 [(46341, 0), (1, 0)] 0 (- 1) 0x7fffffff = 0"
  by (simp add: int32_def Let_def)

lemma opposite_in_range:
  assumes "r = - 1 \<or> (0 \<le> r \<and> r < 4)"
  shows "0 \<le> c_mod (r + 2) 4 \<and> c_mod (r + 2) 4 < 4"
proof -
  have "0 \<le> r + 2" using assms by auto
  then show ?thesis by (simp add: c_mod_nonneg)
qed

lemma processBitmap_empty:
  "f_x_map f = 0 \<or> f_y_map f = 0 \<Longrightarrow> processBitmap md f = Inr (0, md, f)"
  by (auto simp: processBitmap_def)

lemma processBitmap_nonempty:
  assumes "f_x_map f \<noteq> 0" and "f_y_map f \<noteq> 0" and "x_bits md \<noteq> 1" and "y_bits md \<noteq> 1"
    and "- 1 \<le> second_touch md" and "second_touch md \<le> 3"
  shows "\<exists>st. 0 \<le> st \<and> st < 4
      \<and> st = (if second_touch md = - 1
               then c_mod (closest_loop (f_x f) (f_y f) (corners md f) 0 (- 1) 0x7fffffff + 2) 4
               else second_touch md)
      \<and> processBitmap md f =
          Inr (int (max (runs_on (f_x_map f)) (runs_on (f_y_map f))), md\<lparr>second_touch := st\<rparr>,
               f\<lparr>f_x1 := f_x f, f_y1 := f_y f,
                 f_x2 := fst (corners md f ! nat st), f_y2 := snd (corners md f ! nat st)\<rparr>)"
proof -
  define st where "st = (if second_touch md = - 1
               then c_mod (closest_loop (f_x f) (f_y f) (corners md f) 0 (- 1) 0x7fffffff + 2) 4
               else second_touch md)"
  let ?r = "closest_loop (f_x f) (f_y f) (corners md f) 0 (- 1) 0x7fffffff"
  have "?r = - 1 \<or> (0 \<le> ?r \<and> ?r < 4)"
    using closest_loop_range [of "f_x f" "f_y f" "corners md f" "0x7fffffff"] by simp
  then have "0 \<le> c_mod (?r + 2) 4 \<and> c_mod (?r + 2) 4 < 4"
    by (rule opposite_in_range)
  then have rng: "0 \<le> st" "st < 4"
    using assms(5,6) by (auto simp: st_def)
  have stv: "(if second_touch md = - 1
              then c_mod (closest_loop (f_x f) (f_y f) (corners md f) 0 (second_touch md)
                            0x7fffffff + 2) 4
              else second_touch md) = st"
    by (simp add: st_def)
  have "processBitmap md f =
          Inr (int (max (runs_on (f_x_map f)) (runs_on (f_y_map f))), md\<lparr>second_touch := st\<rparr>,
               f\<lparr>f_x1 := f_x f, f_y1 := f_y f,
                 f_x2 := fst (corners md f ! nat st), f_y2 := snd (corners md f ! nat st)\<rparr>)"
    unfolding processBitmap_def Let_def stv axis_points_count
    using assms(1-4) rng by simp
  then show ?thesis
    using rng st_def by blast
qed

lemma unat_two_power: "i < 32 \<Longrightarrow> unat ((2::u32) ^ i) = 2 ^ i"
proof -
  assume "i < 32"
  then have "(2::u32) ^ i \<noteq> 0" by (simp add: exp_eq_zero_iff)
  then have "0 < (2::u32) ^ i" by (simp add: word_greater_zero_iff)
  then have "uint ((2::u32) ^ i) = 2 ^ i" by (rule uint_2p)
  then have "int (unat ((2::u32) ^ i)) = int (2 ^ i)" by simp
  then show ?thesis by (simp only: int_int_eq)
qed

lemma runs_on_single_bit:
  assumes "i < 32"
  shows "runs_on (2 ^ i) = 1"
proof -
  have u: "unat ((2::u32) ^ i) = (2 ^ 1 - 1) * 2 ^ i"
    using assms by (simp add: unat_two_power)
  have "snd (alps_get_bitmap_points (2 ^ i) (zero_point, zero_point) 0) = 1"
    using scan_single_run [of 1 "2 ^ i" i zero_point zero_point 0] u by simp
  then show ?thesis
    by (simp add: scan_count)
qed

text \<open>
  C4. \<^verbatim>\<open>processBitmap\<close> returns 0 when either bitmap word is zero; otherwise it
  returns the larger of the two numbers of maximal runs of set bits; with a single set
  bit in each word the count is 1, hence at most 2. The division by
  \<open>2 * (bits - 1)\<close> and the read of \<^verbatim>\<open>corner[second_touch]\<close> are defined when neither
  bit width is 1 and \<^verbatim>\<open>second_touch\<close> is \<open>-1\<close> or a corner index.
\<close>

theorem processBitmap_finger_count:
  assumes "x_bits md \<noteq> 1" and "y_bits md \<noteq> 1"
    and "- 1 \<le> second_touch md" and "second_touch md \<le> 3"
  shows "(f_x_map f = 0 \<or> f_y_map f = 0 \<longrightarrow> processBitmap md f = Inr (0, md, f))
       \<and> (f_x_map f \<noteq> 0 \<and> f_y_map f \<noteq> 0 \<longrightarrow>
            (\<exists>md' f'. processBitmap md f =
                Inr (int (max (runs_on (f_x_map f)) (runs_on (f_y_map f))), md', f')))
       \<and> ((\<exists>i<32. f_x_map f = 2 ^ i) \<and> (\<exists>j<32. f_y_map f = 2 ^ j) \<longrightarrow>
            (\<exists>n md' f'. processBitmap md f = Inr (n, md', f') \<and> n = 1 \<and> n \<le> 2))"
proof (intro conjI impI)
  assume "f_x_map f = 0 \<or> f_y_map f = 0"
  then show "processBitmap md f = Inr (0, md, f)" by (rule processBitmap_empty)
next
  assume "f_x_map f \<noteq> 0 \<and> f_y_map f \<noteq> 0"
  then show "\<exists>md' f'. processBitmap md f =
      Inr (int (max (runs_on (f_x_map f)) (runs_on (f_y_map f))), md', f')"
    using processBitmap_nonempty [of f md] assms by blast
next
  assume a: "(\<exists>i<32. f_x_map f = 2 ^ i) \<and> (\<exists>j<32. f_y_map f = 2 ^ j)"
  then obtain i j where ij: "i < 32" "f_x_map f = 2 ^ i" "j < 32" "f_y_map f = 2 ^ j"
    by blast
  have nz: "f_x_map f \<noteq> 0" "f_y_map f \<noteq> 0"
    using ij by simp_all
  have "runs_on (f_x_map f) = 1" "runs_on (f_y_map f) = 1"
    using ij by (simp_all add: runs_on_single_bit)
  then show "\<exists>n md' f'. processBitmap md f = Inr (n, md', f') \<and> n = 1 \<and> n \<le> 2"
    using processBitmap_nonempty [OF nz assms] by auto
qed
theorem processBitmap_finger_count_witness:
  "x_bits md_pinnacle \<noteq> 1 \<and> y_bits md_pinnacle \<noteq> 1
   \<and> - 1 \<le> second_touch md_pinnacle \<and> second_touch md_pinnacle \<le> 3
   \<and> f_x_map fields_sequence = 0x104 \<and> f_y_map fields_sequence = 2 ^ 2
   \<and> runs_on 0x104 = 2 \<and> runs_on (2 ^ 2) = 1
   \<and> (\<exists>md' f'. processBitmap md_pinnacle fields_sequence = Inr (2, md', f'))
   \<and> processBitmap md_pinnacle (fields_sequence\<lparr>f_x_map := 0\<rparr>)
        = Inr (0, md_pinnacle, fields_sequence\<lparr>f_x_map := 0\<rparr>)
   \<and> (\<exists>md' f'. processBitmap md_pinnacle (fields_sequence\<lparr>f_x_map := 2 ^ 5\<rparr>)
                  = Inr (1, md', f'))"
proof -
  have md: "x_bits md_pinnacle \<noteq> 1" "y_bits md_pinnacle \<noteq> 1"
      "- 1 \<le> second_touch md_pinnacle" "second_touch md_pinnacle \<le> 3"
    by (simp_all add: md_pinnacle_def md_zero_def setDefaults_def)
  have maps: "f_x_map fields_sequence = 0x104" "f_y_map fields_sequence = 2 ^ 2"
    by (simp_all add: fields_sequence_def decodePinnacle_def decodeButtonsV3_def pb_def
          bitmap_packet_def position_packet_def fields_zero_def Let_def)
  have runs: "runs_on 0x104 = 2" "runs_on (2 ^ 2) = 1"
    by (simp_all add: runs_on_def upt_rec [of _ 32])
  have one: "(\<exists>i<32. (2::u32) ^ 5 = 2 ^ i) \<and> (\<exists>j<32. (2::u32) ^ 2 = 2 ^ j)"
    by (intro conjI exI [of _ 5] exI [of _ 2]) simp_all
  note a = processBitmap_finger_count [OF md, of fields_sequence]
  note b = processBitmap_finger_count [OF md, of "fields_sequence\<lparr>f_x_map := 0\<rparr>"]
  note c = processBitmap_finger_count [OF md, of "fields_sequence\<lparr>f_x_map := 2 ^ 5\<rparr>"]
  have c1: "\<exists>md' f'. processBitmap md_pinnacle (fields_sequence\<lparr>f_x_map := 2 ^ 5\<rparr>)
                  = Inr (1, md', f')"
    using c one maps by auto
  show ?thesis
    using md maps runs a b c1 by simp
qed
section \<open>The second-touch corner across frames\<close>

lemma processBitmap_selected_unchanged:
  assumes "processBitmap md f = Inr (n, md', f')" and "second_touch md \<noteq> - 1"
  shows "md' = md"
  using assms by (auto simp: processBitmap_def Let_def split: if_splits)

lemma processBitmap_f_is_mp:
  assumes "processBitmap md f = Inr (n, md', f')"
  shows "f_is_mp f' = f_is_mp f \<and> f_first_mp f' = f_first_mp f \<and> f_z f' = f_z f"
  using assms by (auto simp: processBitmap_def Let_def split: if_splits)

lemma block_selected_unchanged:
  assumes "v3_multi_packet_block md f = Inr (md1, f1, k)" and "second_touch md \<noteq> - 1"
  shows "second_touch md1 = second_touch md"
  using assms
  by (auto simp: v3_multi_packet_block_def split: if_splits sum.splits
           dest: processBitmap_selected_unchanged)

lemma frame_selected_unchanged:
  assumes "processTouchpadPacketV3 f0 md pkt = Inr (md', r)"
    and "second_touch md \<noteq> - 1"
    and "\<forall>smp. r = Some smp \<longrightarrow> 2 \<le> s_fingers smp"
  shows "second_touch md' = second_touch md"
proof (cases "call_decode_fields (decode_fields md) f0 pkt")
  case (Inl e)
  then show ?thesis using assms(1) by (simp add: processTouchpadPacketV3_def)
next
  case (Inr f)
  show ?thesis
  proof (cases "2 < multi_packet md")
    case True
    then show ?thesis using assms(1) Inr by (simp add: processTouchpadPacketV3_def)
  next
    case False
    show ?thesis
    proof (cases "v3_multi_packet_block md f")
      case (Inl e)
      then show ?thesis using assms(1) Inr False by (simp add: processTouchpadPacketV3_def)
    next
      case blk: (Inr t)
      obtain md1 f1 k where t: "t = (md1, f1, k)" by (cases t) auto
      have st1: "second_touch md1 = second_touch md"
        using block_selected_unchanged [of md f md1 f1 k] blk t assms(2) by simp
      show ?thesis
        using assms(1,3) Inr False blk t st1
        by (auto simp: processTouchpadPacketV3_def Let_def split: if_splits)
    qed
  qed
qed

lemma frame_clears:
  assumes "processTouchpadPacketV3 f0 md pkt = Inr (md', Some smp)" and "s_fingers smp < 2"
  shows "second_touch md' = - 1"
  using assms
  by (auto simp: processTouchpadPacketV3_def Let_def split: if_splits sum.splits prod.splits)

lemma md_sequence_simps:
  "decode_fields md_sequence = DecodePinnacle" "multi_packet md_sequence = 1"
  "multi_data md_sequence = position_packet" "second_touch md_sequence = - 1"
  "x_bits md_sequence = 15" "y_bits md_sequence = 11" "x_max md_sequence = 2000"
  "y_max md_sequence = 1400" "proto_version md_sequence = ALPS_PROTO_V3"
  "quirks md_sequence = {}"
  by (simp_all add: md_sequence_def md_pinnacle_def md_zero_def setDefaults_def)

lemma fields_sequence_simps:
  "f_x_map fields_sequence = 0x104" "f_y_map fields_sequence = 4"
  "f_x fields_sequence = 256" "f_y fields_sequence = 512" "\<not> f_is_mp fields_sequence"
  by (simp_all add: fields_sequence_def decodePinnacle_def decodeButtonsV3_def pb_def
        bitmap_packet_def position_packet_def fields_zero_def Let_def)

lemma corners_sequence:
  "corners md_sequence fields_sequence = [(285, 1120), (1142, 1120), (1142, 1120), (285, 1120)]"
  by (simp add: corners_def md_sequence_simps fields_sequence_simps axis_points_def
        alps_get_bitmap_points_def bitmap_points_loop.simps point_update_def split_single_def
        zero_point_def corner_coord_def c_div_def Let_def)

text \<open>
  C2, at a frame the code can receive. A Pinnacle device dispatches a single touch,
  which leaves no corner selected, and stores the position packet (x = 256, y = 512,
  z = 32) that announces a multi-packet sequence. (1) A bitmap packet that
  reports 2 fingers with both bitmaps non-empty selects a corner: corner 0 at
  (285, 1120) is the nearest to (256, 512), and the opposite corner 2 is fixed.
  (2) A bitmap packet that reports 2 fingers with an empty x bitmap makes
  \<^verbatim>\<open>processBitmap\<close> return 0 before the selection; \<^verbatim>\<open>processTouchpadPacketV3\<close> drops
  that return value, keeps the packet's finger count 2, skips the single-touch branch
  and dispatches a 2-finger sample while \<^verbatim>\<open>second_touch\<close> is still \<open>-1\<close>. The
  coordinates of that sample are those of \<^verbatim>\<open>f.x1\<close> and \<^verbatim>\<open>f.y1\<close>, which nothing has
  assigned: they are whatever the uninitialised local \<open>f0\<close> held.
\<close>

theorem empty_bitmap_frame_selects_no_corner:
  "processTouchpadPacketV3 f0 md_pinnacle single_touch_packet
        = Inr (md_pinnacle\<lparr>second_touch := - 1\<rparr>,
               Some \<lparr>s_x = 768, s_y = 1536, s_z = 32, s_fingers = 1, s_buttons = 0\<rparr>)
   \<and> processTouchpadPacketV3 f0 (md_pinnacle\<lparr>second_touch := - 1\<rparr>) position_packet
        = Inr (md_sequence, None)
   \<and> second_touch md_sequence = - 1
   \<and> processTouchpadPacketV3 f0 md_sequence bitmap_packet
        = Inr (md_sequence\<lparr>multi_packet := 0, second_touch := 2\<rparr>,
               Some \<lparr>s_x = 768, s_y = 1536, s_z = 32, s_fingers = 2, s_buttons = 0\<rparr>)
   \<and> processBitmap md_sequence
          (decodePinnacle (decodePinnacle f0 empty_x_bitmap_packet) position_packet)
        = Inr (0, md_sequence,
               decodePinnacle (decodePinnacle f0 empty_x_bitmap_packet) position_packet)
   \<and> processTouchpadPacketV3 f0 md_sequence empty_x_bitmap_packet
        = Inr (md_sequence\<lparr>multi_packet := 0\<rparr>,
               Some \<lparr>s_x = f_x1 f0 * 3, s_y = f_y1 f0 * 3, s_z = 32, s_fingers = 2,
                     s_buttons = 0\<rparr>)"
proof -
  have single: "processTouchpadPacketV3 f0 md_pinnacle single_touch_packet
        = Inr (md_pinnacle\<lparr>second_touch := - 1\<rparr>,
               Some \<lparr>s_x = 768, s_y = 1536, s_z = 32, s_fingers = 1, s_buttons = 0\<rparr>)"
    by (simp add: md_pinnacle_def md_zero_def setDefaults_def
          processTouchpadPacketV3_def v3_multi_packet_block_def call_decode_fields_def
          decodePinnacle_def decodeButtonsV3_def pb_def single_touch_packet_def
          buttons_of_def Let_def)
  have stored: "processTouchpadPacketV3 f0 (md_pinnacle\<lparr>second_touch := - 1\<rparr>) position_packet
        = Inr (md_sequence, None)"
    by (simp add: md_sequence_def md_pinnacle_def md_zero_def setDefaults_def
          processTouchpadPacketV3_def v3_multi_packet_block_def call_decode_fields_def
          decodePinnacle_def decodeButtonsV3_def pb_def position_packet_def Let_def)
  have unselected: "second_touch md_sequence = - 1"
    by (simp add: md_sequence_simps)
  have selecting: "processTouchpadPacketV3 f0 md_sequence bitmap_packet
        = Inr (md_sequence\<lparr>multi_packet := 0, second_touch := 2\<rparr>,
               Some \<lparr>s_x = 768, s_y = 1536, s_z = 32, s_fingers = 2, s_buttons = 0\<rparr>)"
    by (simp add: md_sequence_def md_pinnacle_def md_zero_def setDefaults_def
          processTouchpadPacketV3_def v3_multi_packet_block_def call_decode_fields_def
          decodePinnacle_def decodeButtonsV3_def pb_def processBitmap_def
          bitmap_packet_def position_packet_def buttons_of_def Let_def
          axis_points_def alps_get_bitmap_points_def bitmap_points_loop.simps point_update_def
          split_single_def zero_point_def corners_def corner_coord_def c_div_def c_mod_def
          int32_def)
  have returns_0: "processBitmap md_sequence
          (decodePinnacle (decodePinnacle f0 empty_x_bitmap_packet) position_packet)
        = Inr (0, md_sequence,
               decodePinnacle (decodePinnacle f0 empty_x_bitmap_packet) position_packet)"
    by (simp add: processBitmap_def decodePinnacle_def decodeButtonsV3_def pb_def
          empty_x_bitmap_packet_def position_packet_def Let_def)
  have dispatched: "processTouchpadPacketV3 f0 md_sequence empty_x_bitmap_packet
        = Inr (md_sequence\<lparr>multi_packet := 0\<rparr>,
               Some \<lparr>s_x = f_x1 f0 * 3, s_y = f_y1 f0 * 3, s_z = 32, s_fingers = 2,
                     s_buttons = 0\<rparr>)"
    by (simp add: md_sequence_def md_pinnacle_def md_zero_def setDefaults_def
          processTouchpadPacketV3_def v3_multi_packet_block_def call_decode_fields_def
          decodePinnacle_def decodeButtonsV3_def pb_def processBitmap_def
          empty_x_bitmap_packet_def position_packet_def buttons_of_def Let_def)
  show ?thesis
    using single stored unselected selecting returns_0 dispatched by (intro conjI)
qed

section \<open>Packet framing\<close>








section \<open>V4: the fragmented bitmap\<close>

lemma v4_sync_step:
  assumes "length (multi_data md) = 6" and "(pb p 6 AND 0x40) \<noteq> 0"
  shows "\<exists>smp. processPacketV4 md p =
           Inr (md\<lparr>multi_packet := 1, multi_data := (multi_data md)[0 := p ! 6, 1 := p ! 7]\<rparr>,
                Some smp)"
  using assms by (simp add: processPacketV4_def Let_def)

lemma v4_second_step:
  assumes "length (multi_data md) = 6" and "(pb p 6 AND 0x40) = 0" and "multi_packet md = 1"
  shows "\<exists>smp. processPacketV4 md p =
           Inr (md\<lparr>multi_packet := 2, multi_data := (multi_data md)[2 := p ! 6, 3 := p ! 7]\<rparr>,
                Some smp)"
  using assms by (simp add: processPacketV4_def Let_def)

lemma v4_third_step:
  assumes "length (multi_data md) = 6" and "(pb p 6 AND 0x40) = 0" and "multi_packet md = 2"
  shows "\<exists>smp. processPacketV4 md p =
           Inr (md\<lparr>multi_packet := 0, fingers := 0,
                   multi_data := (multi_data md)[4 := p ! 6, 5 := p ! 7]\<rparr>,
                Some smp)
           \<and> s_fingers smp = (if 0 < s_z smp then 1 else 0)"
  using assms by (simp add: processPacketV4_def Let_def)

lemma v4_never_multi_touch:
  assumes "processPacketV4 md p = Inr (md', Some smp)" and "fingers md < 2"
  shows "s_fingers smp \<le> 1 \<and> fingers md' < 2"
  using assms by (auto simp: processPacketV4_def Let_def split: if_splits)

text \<open>
  C5, at three packets the code can receive. The V4 device receives three consecutive
  packets, the first with the sync bit, each with pressure 32. Their bytes 6 and 7
  accumulate in \<^verbatim>\<open>multi_data\<close> at offsets 0, 2 and 4 and the position returns to 0. The
  words that the third call assembles from the six bytes are \<open>0xc0c\<close> and \<open>0x63\<close>, each
  with two runs of set bits: \<^verbatim>\<open>processBitmap\<close>, which the V3 path calls on such words,
  counts 2 fingers in them. The V4 path never hands them over: it stores a finger
  count of 0 and every one of the three samples is dispatched with 1 finger.
\<close>

theorem v4_bitmap_not_reconstructed:
  "processPacketV4 md_v4 v4_packet1
     = Inr (md_v4\<lparr>multi_packet := 1, multi_data := [0x43, 0x03, 0x00, 0x00, 0x00, 0x00]\<rparr>,
            Some \<lparr>s_x = 256, s_y = 512, s_z = 32, s_fingers = 1, s_buttons = 0\<rparr>)
   \<and> processPacketsV4 md_v4 [v4_packet1, v4_packet2, v4_packet3]
     = Inr (md_v4\<lparr>multi_packet := 0, fingers := 0,
                  multi_data := [0x43, 0x03, 0x03, 0x03, 0x00, 0x00]\<rparr>,
            [Some \<lparr>s_x = 256, s_y = 512, s_z = 32, s_fingers = 1, s_buttons = 0\<rparr>,
             Some \<lparr>s_x = 256, s_y = 512, s_z = 32, s_fingers = 1, s_buttons = 0\<rparr>,
             Some \<lparr>s_x = 256, s_y = 512, s_z = 32, s_fingers = 1, s_buttons = 0\<rparr>])
   \<and> v4_x_bitmap [0x43, 0x03, 0x03, 0x03, 0x00, 0x00] = 0xc0c
   \<and> v4_y_bitmap [0x43, 0x03, 0x03, 0x03, 0x00, 0x00] = 0x63
   \<and> (case processBitmap md_v4 (fields_zero\<lparr>f_x_map := 0xc0c, f_y_map := 0x63\<rparr>) of
         Inr (n, md', f') \<Rightarrow> n = 2
       | Inl e \<Rightarrow> False)"
proof -
  have first: "processPacketV4 md_v4 v4_packet1
     = Inr (md_v4\<lparr>multi_packet := 1, multi_data := [0x43, 0x03, 0x00, 0x00, 0x00, 0x00]\<rparr>,
            Some \<lparr>s_x = 256, s_y = 512, s_z = 32, s_fingers = 1, s_buttons = 0\<rparr>)"
    by (simp add: processPacketV4_def Let_def pb_def md_v4_def md_zero_def setDefaults_def
          v4_packet1_def buttons_of_def)
  have three: "processPacketsV4 md_v4 [v4_packet1, v4_packet2, v4_packet3]
     = Inr (md_v4\<lparr>multi_packet := 0, fingers := 0,
                  multi_data := [0x43, 0x03, 0x03, 0x03, 0x00, 0x00]\<rparr>,
            [Some \<lparr>s_x = 256, s_y = 512, s_z = 32, s_fingers = 1, s_buttons = 0\<rparr>,
             Some \<lparr>s_x = 256, s_y = 512, s_z = 32, s_fingers = 1, s_buttons = 0\<rparr>,
             Some \<lparr>s_x = 256, s_y = 512, s_z = 32, s_fingers = 1, s_buttons = 0\<rparr>])"
    by (simp add: processPacketV4_def Let_def pb_def md_v4_def md_zero_def setDefaults_def
          v4_packet1_def v4_packet2_def v4_packet3_def buttons_of_def)
  have words: "v4_x_bitmap [0x43, 0x03, 0x03, 0x03, 0x00, 0x00] = 0xc0c"
      "v4_y_bitmap [0x43, 0x03, 0x03, 0x03, 0x00, 0x00] = 0x63"
    by (simp_all add: v4_x_bitmap_def v4_y_bitmap_def pb_def)
  have counted: "(case processBitmap md_v4 (fields_zero\<lparr>f_x_map := 0xc0c, f_y_map := 0x63\<rparr>) of
         Inr (n, md', f') \<Rightarrow> n = 2
       | Inl e \<Rightarrow> False)"
    by (simp add: processBitmap_def md_v4_def md_zero_def setDefaults_def fields_zero_def
          axis_points_def alps_get_bitmap_points_def bitmap_points_loop.simps point_update_def
          split_single_def zero_point_def Let_def)
  show ?thesis
    using first three words counted by (intro conjI)
qed

section \<open>The gesture head: guards and momentum start\<close>

lemma prelude_frame_refl: "prelude_frame ts ts"
  by (simp add: prelude_frame_def)

lemma prelude_frame_trans:
  "prelude_frame a b \<Longrightarrow> prelude_frame b c \<Longrightarrow> prelude_frame a c"
  by (simp add: prelude_frame_def)

lemma reset_filters_frame: "prelude_frame ts (reset_filters hp ts)"
  by (simp add: prelude_frame_def reset_filters_def)

lemma prelude_buttons_frame:
  "prelude_frame ts (fst (snd (prelude_buttons hp cfg now_abs ts smp)))"
  by (simp add: prelude_frame_def prelude_buttons_def Let_def split: prod.splits)

lemma prelude_finger_change_frame:
  "prelude_frame ts (prelude_finger_change hp cfg ts n)"
  by (simp add: prelude_frame_def prelude_finger_change_def reset_filters_def Let_def)

lemma prelude_filters_frame:
  "prelude_frame ts (snd (snd (prelude_filters hp cfg ts xy)))"
  by (simp add: prelude_frame_def prelude_filters_def Let_def split: prod.splits)

lemma prelude_ignoredeltas_frame:
  "prelude_frame ts (prelude_ignoredeltas hp ts x y)"
  by (simp add: prelude_frame_def prelude_ignoredeltas_def reset_filters_def Let_def)

lemma dispatch_prelude_frame:
  "prelude_frame ts (fst (dispatch_prelude hp cfg now_abs ts smp xy))"
proof -
  obtain b ts1 ev where pb: "prelude_buttons hp cfg now_abs ts smp = (b, ts1, ev)"
    by (cases "prelude_buttons hp cfg now_abs ts smp") auto
  let ?ts2 = "prelude_finger_change hp cfg ts1 (s_fingers smp)"
  obtain x y ts3 where pf: "prelude_filters hp cfg ?ts2 xy = (x, y, ts3)"
    by (cases "prelude_filters hp cfg ?ts2 xy") auto
  have 1: "prelude_frame ts ts1" using prelude_buttons_frame [of ts hp cfg now_abs smp] pb by simp
  have 2: "prelude_frame ts1 ?ts2" by (rule prelude_finger_change_frame)
  have 3: "prelude_frame ?ts2 ts3" using prelude_filters_frame [of ?ts2 hp cfg xy] pf by simp
  have 4: "prelude_frame ts3 (prelude_ignoredeltas hp ts3 x y)"
    by (rule prelude_ignoredeltas_frame)
  have "prelude_frame ts (prelude_ignoredeltas hp ts3 x y)"
    using 1 2 3 4 by (blast intro: prelude_frame_trans)
  then show ?thesis by (simp add: dispatch_prelude_def pb pf)
qed
lemma scale_axes_ok:
  "0 < xupmm cfg \<Longrightarrow> 0 < yupmm cfg \<Longrightarrow> \<exists>xy. scale_axes cfg xr yr = Inr xy"
  by (simp add: scale_axes_def)

lemma momentum_start_events:
  assumes "touchmode ts = MODE_MTOUCH" and "momentumscroll cfg"
    and "momentumscrolltimer cfg \<noteq> 0"
  shows "snd (momentum_start cfg ts) =
     (if momentumscrollsamplesmin cfg < hist_count (dy_history ts)
         \<and> hist_newest (time_history ts) \<noteq> hist_oldest (time_history ts)
      then [TimerTimeout ScrollTimer (momentumscrolltimer cfg)] else [])"
  using assms by (simp add: momentum_start_def Let_def)

lemma finger_lifted_events:
  assumes "touchmode ts = MODE_MTOUCH" and "momentumscroll cfg"
    and "momentumscrolltimer cfg \<noteq> 0"
  shows "snd (finger_lifted cfg now_ns ts) =
     (if momentumscrollsamplesmin cfg < hist_count (dy_history ts)
         \<and> hist_newest (time_history ts) \<noteq> hist_oldest (time_history ts)
      then [TimerTimeout ScrollTimer (momentumscrolltimer cfg)] else [])"
proof -
  let ?ts1 = "ts\<lparr>xrest := 0, yrest := 0, scrollrest := 0,
                   inSwipeLeft := 0, inSwipeRight := 0, inSwipeUp := 0, inSwipeDown := 0,
                   inSwipe4Left := 0, inSwipe4Right := 0, inSwipe4Up := 0, inSwipe4Down := 0,
                   xmoved := 0, ymoved := 0, untouchtime := now_ns, tracksecondary := False\<rparr>"
  have "snd (momentum_start cfg ?ts1) =
     (if momentumscrollsamplesmin cfg < hist_count (dy_history ?ts1)
         \<and> hist_newest (time_history ?ts1) \<noteq> hist_oldest (time_history ?ts1)
      then [TimerTimeout ScrollTimer (momentumscrolltimer cfg)] else [])"
    by (rule momentum_start_events) (use assms in simp_all)
  then show ?thesis
    by (cases "momentum_start cfg ?ts1") (simp add: finger_lifted_def Let_def)
qed

text \<open>
  C6, as stated: a release in multi-touch mode with momentum scrolling enabled schedules
  the continuation whenever the history holds at least the configured minimum of
  samples over a non-zero window. With a minimum of 3, a history of exactly 3 vertical
  deltas and a window of 200, no timer is armed: the source asks for more samples than
  the minimum. And with 4 samples in the history, a release that arrives while the
  ignore-all flag is set returns at the flag's guard, before the momentum check.
\<close>

theorem momentum_minimum_counterexample:
  "momentumscroll settings_example \<and> momentumscrolltimer settings_example \<noteq> 0
   \<and> touchmode touch_example = MODE_MTOUCH
   \<and> s_z release_sample < z_finger settings_example
   \<and> momentumscrollsamplesmin settings_example \<le> hist_count (dy_history touch_example)
   \<and> hist_newest (time_history touch_example) - hist_oldest (time_history touch_example) = 200
   \<and> (case dispatchEventsWithInfo plain_helpers settings_example 0 1000 touch_example
              release_sample of
         Inr (ContinuesToTaps ts' evs x y b) \<Rightarrow> evs = []
       | _ \<Rightarrow> False)
   \<and> (case dispatchEventsWithInfo plain_helpers settings_example 0 1000
              (touch_example\<lparr>dy_history := [5, 6, 7, 8], time_history := [100, 200, 300, 400],
                              ignoreall := True\<rparr>)
              release_sample of
         Inr (ReturnedIgnoreAll ts' evs) \<Rightarrow> evs = []
       | _ \<Rightarrow> False)"
  by (simp add: settings_example_def touch_example_def release_sample_def plain_helpers_def
        dispatchEventsWithInfo_def scale_axes_def dispatch_prelude_def prelude_buttons_def
        prelude_finger_change_def prelude_filters_def prelude_ignoredeltas_def
        reset_filters_def isTouchMode_def finger_lifted_def momentum_start_def
        hist_count_def hist_newest_def hist_oldest_def Let_def)

text \<open>
  C6, amended: for every finger-release sample (pressure below the touch threshold)
  that arrives while the gesture state machine is in MultiTouch mode, with momentum
  scrolling enabled, a non-zero momentum timer interval and the ignore-all flag clear,
  the call goes on past both guards, and a momentum-scroll continuation is scheduled
  exactly when the vertical-delta history holds more samples than the configured
  minimum and the history's time window is non-zero. The only other events of the call
  up to that point are those of \<^verbatim>\<open>middleButton\<close>. (The axis resolutions are positive,
  so the scaling divides by a non-zero value.)
\<close>

theorem momentum_scroll_start:
  assumes "0 < xupmm cfg" and "0 < yupmm cfg"
    and "s_z smp < z_finger cfg" and "touchmode ts = MODE_MTOUCH"
    and "momentumscroll cfg" and "momentumscrolltimer cfg \<noteq> 0" and "\<not> ignoreall ts"
  shows "\<exists>xy ts' x y b.
           scale_axes cfg (s_x smp) (s_y smp) = Inr xy
         \<and> dispatchEventsWithInfo hp cfg now_abs now_ns ts smp =
             Inr (ContinuesToTaps ts'
                    (fst (snd (dispatch_prelude hp cfg now_abs ts smp xy))
                     @ (if momentumscrollsamplesmin cfg < hist_count (dy_history ts)
                           \<and> hist_newest (time_history ts) - hist_oldest (time_history ts) \<noteq> 0
                        then [TimerTimeout ScrollTimer (momentumscrolltimer cfg)] else []))
                    x y b)"
proof -
  obtain xy where xy: "scale_axes cfg (s_x smp) (s_y smp) = Inr xy"
    using scale_axes_ok [OF assms(1,2)] by blast
  obtain ts1 ev x y b where pre: "dispatch_prelude hp cfg now_abs ts smp xy = (ts1, ev, x, y, b)"
    by (cases "dispatch_prelude hp cfg now_abs ts smp xy") auto
  have fr: "prelude_frame ts ts1"
    using dispatch_prelude_frame [of ts hp cfg now_abs smp xy] pre by simp
  then have keep: "touchmode ts1 = MODE_MTOUCH" "\<not> ignoreall ts1"
      "dy_history ts1 = dy_history ts" "time_history ts1 = time_history ts"
    using assms(4,7) by (simp_all add: prelude_frame_def)
  obtain ts2 ev2 where fl: "finger_lifted cfg now_ns ts1 = (ts2, ev2)"
    by (cases "finger_lifted cfg now_ns ts1") auto
  have ev2: "ev2 = (if momentumscrollsamplesmin cfg < hist_count (dy_history ts)
                       \<and> hist_newest (time_history ts) - hist_oldest (time_history ts) \<noteq> 0
                    then [TimerTimeout ScrollTimer (momentumscrolltimer cfg)] else [])"
    using finger_lifted_events [OF keep(1) assms(5,6), of now_ns] fl keep(3,4) by simp
  have "dispatchEventsWithInfo hp cfg now_abs now_ns ts smp
          = Inr (ContinuesToTaps ts2 (ev @ ev2) x y b)"
    using assms(3) keep(1,2) xy pre fl
    by (simp add: dispatchEventsWithInfo_def isTouchMode_def)
  then show ?thesis
    using xy pre ev2 by auto
qed
theorem momentum_scroll_start_witness:
  "(0::int) < xupmm settings_example \<and> 0 < yupmm settings_example
   \<and> s_z release_sample < z_finger settings_example
   \<and> momentumscroll settings_example \<and> momentumscrolltimer settings_example \<noteq> 0
   \<and> hist_count (dy_history (touch_example\<lparr>dy_history := [5, 6, 7, 8],
                                             time_history := [100, 200, 300, 400]\<rparr>)) = 4
   \<and> (\<exists>ts' x y b.
         dispatchEventsWithInfo plain_helpers settings_example 0 1000
             (touch_example\<lparr>dy_history := [5, 6, 7, 8], time_history := [100, 200, 300, 400]\<rparr>)
             release_sample
           = Inr (ContinuesToTaps ts' [TimerTimeout ScrollTimer 10000000] x y b))"
proof -
  let ?ts = "touch_example\<lparr>dy_history := [5, 6, 7, 8], time_history := [100, 200, 300, 400]\<rparr>"
  have h: "0 < xupmm settings_example" "0 < yupmm settings_example"
      "s_z release_sample < z_finger settings_example" "touchmode ?ts = MODE_MTOUCH"
      "momentumscroll settings_example" "momentumscrolltimer settings_example \<noteq> 0"
      "\<not> ignoreall ?ts"
    by (simp_all add: settings_example_def release_sample_def touch_example_def)
  have ev: "fst (snd (dispatch_prelude plain_helpers settings_example 0 ?ts release_sample xy)) = []"
    for xy
    by (simp add: dispatch_prelude_def prelude_buttons_def prelude_filters_def
          plain_helpers_def settings_example_def release_sample_def touch_example_def Let_def)
  have c: "momentumscrollsamplesmin settings_example < hist_count (dy_history ?ts)
      \<and> hist_newest (time_history ?ts) - hist_oldest (time_history ?ts) \<noteq> 0"
    by (simp add: settings_example_def hist_count_def hist_newest_def hist_oldest_def)
  have t: "momentumscrolltimer settings_example = 10000000"
    by (simp add: settings_example_def)
  from momentum_scroll_start [OF h, of plain_helpers 0 1000]
  have "\<exists>ts' x y b.
         dispatchEventsWithInfo plain_helpers settings_example 0 1000 ?ts release_sample
           = Inr (ContinuesToTaps ts' [TimerTimeout ScrollTimer 10000000] x y b)"
    unfolding ev using c t by auto
  then show ?thesis
    using h by (simp add: hist_count_def)
qed

lemma trackstick_flag:
  assumes "(pkt ! 0 AND 0x40) \<noteq> 0"
    and "\<not> (pkt ! 1 = 0x7f \<and> pkt ! 2 = 0x7f \<and> pkt ! 3 = 0x7f)"
  shows "ignoreall (fst (snd (processTrackstickPacketV3 md ts pkt)))
       = ((fst (trackstick_raw pkt) \<noteq> 0 \<or> snd (trackstick_raw pkt) \<noteq> 0)
          \<and> \<not> (0x7f \<le> \<bar>fst (trackstick_raw pkt)\<bar> \<and> 0x7f \<le> \<bar>snd (trackstick_raw pkt)\<bar>))"
  using assms
  by (auto simp: processTrackstickPacketV3_def trackstick_motion_def c_abs_def Let_def)

lemma dropped_while_ignoreall:
  assumes "ignoreall ts" and "0 < xupmm cfg" and "0 < yupmm cfg"
  shows "\<exists>xy. scale_axes cfg (s_x smp) (s_y smp) = Inr xy
           \<and> (dispatchEventsWithInfo hp cfg now_abs now_ns ts smp
                 = Inr (ReturnedIgnoreAll (fst (dispatch_prelude hp cfg now_abs ts smp xy))
                          (fst (snd (dispatch_prelude hp cfg now_abs ts smp xy))))
              \<or> dispatchEventsWithInfo hp cfg now_abs now_ns ts smp
                 = Inr (ReturnedAfterTyping (fst (dispatch_prelude hp cfg now_abs ts smp xy))
                          (fst (snd (dispatch_prelude hp cfg now_abs ts smp xy)))))
           \<and> prelude_frame ts (fst (dispatch_prelude hp cfg now_abs ts smp xy))
           \<and> ignoreall (fst (dispatch_prelude hp cfg now_abs ts smp xy))"
proof -
  obtain xy where xy: "scale_axes cfg (s_x smp) (s_y smp) = Inr xy"
    using scale_axes_ok [OF assms(2,3)] by blast
  obtain ts1 ev x y b where pre: "dispatch_prelude hp cfg now_abs ts smp xy = (ts1, ev, x, y, b)"
    by (cases "dispatch_prelude hp cfg now_abs ts smp xy") auto
  have fr: "prelude_frame ts ts1"
    using dispatch_prelude_frame [of ts hp cfg now_abs smp xy] pre by simp
  then have ig: "ignoreall ts1" using assms(1) by (simp add: prelude_frame_def)
  have "dispatchEventsWithInfo hp cfg now_abs now_ns ts smp = Inr (ReturnedIgnoreAll ts1 ev)
      \<or> dispatchEventsWithInfo hp cfg now_abs now_ns ts smp = Inr (ReturnedAfterTyping ts1 ev)"
    using xy pre ig by (simp add: dispatchEventsWithInfo_def)
  then show ?thesis
    using xy pre fr ig by auto
qed
text \<open>
  C10, as stated: any V3 trackstick packet reporting non-zero motion sets the ignore-all
  flag, and a touchpad sample dropped while the flag is set leaves the gesture state
  unchanged. The packet with both motion bytes \<open>0x7f\<close> carries the motion
  \<open>(127, 127)\<close>, which the source zeroes as a spurious big value, so the packet clears
  a flag that was set. And a sample dropped at the flag's guard has already passed the
  delta-ignoring countdown, which stores the sample's position as the last position.
\<close>

theorem big_motion_clears_flag_counterexample:
  "(big_trackstick_packet ! 0 AND 0x40) \<noteq> 0
   \<and> trackstick_raw big_trackstick_packet = (127, 127)
   \<and> ignoreall (touch_example\<lparr>ignoreall := True\<rparr>)
   \<and> \<not> ignoreall (fst (snd (processTrackstickPacketV3 md_pinnacle
                                 (touch_example\<lparr>ignoreall := True\<rparr>) big_trackstick_packet)))
   \<and> lastx (touch_example\<lparr>ignoreall := True, ignoredeltas := 1\<rparr>) = 0
   \<and> (case dispatchEventsWithInfo plain_helpers settings_example 0 1000
              (touch_example\<lparr>ignoreall := True, ignoredeltas := 1\<rparr>) touch_sample of
         Inr (ReturnedIgnoreAll ts' evs) \<Rightarrow> evs = [] \<and> lastx ts' = 100
       | _ \<Rightarrow> False)"
proof -
  have raw: "trackstick_raw big_trackstick_packet = (127, 127)"
    by (simp add: trackstick_raw_def big_trackstick_packet_def)
  have acc: "(big_trackstick_packet ! 0 AND 0x40) \<noteq> 0"
      "\<not> (big_trackstick_packet ! 1 = 0x7f \<and> big_trackstick_packet ! 2 = 0x7f
          \<and> big_trackstick_packet ! 3 = 0x7f)"
    by (simp_all add: big_trackstick_packet_def)
  have flag: "\<not> ignoreall (fst (snd (processTrackstickPacketV3 md_pinnacle
                                 (touch_example\<lparr>ignoreall := True\<rparr>) big_trackstick_packet)))"
    using trackstick_flag [OF acc(1,2), of md_pinnacle "touch_example\<lparr>ignoreall := True\<rparr>"]
    by (simp add: raw)
  have drop: "(case dispatchEventsWithInfo plain_helpers settings_example 0 1000
              (touch_example\<lparr>ignoreall := True, ignoredeltas := 1\<rparr>) touch_sample of
         Inr (ReturnedIgnoreAll ts' evs) \<Rightarrow> evs = [] \<and> lastx ts' = 100
       | _ \<Rightarrow> False)"
    by (simp add: settings_example_def touch_example_def touch_sample_def plain_helpers_def
        dispatchEventsWithInfo_def scale_axes_def dispatch_prelude_def prelude_buttons_def
        prelude_finger_change_def prelude_filters_def prelude_ignoredeltas_def
        reset_filters_def Let_def)
  have st: "ignoreall (touch_example\<lparr>ignoreall := True\<rparr>)"
      "lastx (touch_example\<lparr>ignoreall := True, ignoredeltas := 1\<rparr>) = 0"
    by (simp_all add: touch_example_def)
  show ?thesis
    using acc(1) raw flag drop st by blast
qed

text \<open>
  C10, amended. (1) A V3 trackstick packet that is accepted (bit \<open>0x40\<close> of byte 0
  set, not the end-of-stream marker) sets the ignore-all flag when the motion it
  carries is non-zero and is not zeroed as a big value (both magnitudes at least
  \<open>0x7f\<close>), and clears the flag otherwise, in particular when the motion is zero on
  both axes. (2) While the flag is set, every touchpad absolute sample returns from
  \<^verbatim>\<open>dispatchEventsWithInfo\<close> at the flag's guard or at the typing guard before it: the
  only events are those of \<^verbatim>\<open>middleButton\<close>, the flag stays set, and the gesture mode,
  the last finger count, the remainders, the swipe state, the time stamps and the scroll
  histories are unchanged; only the button bookkeeping, the delta-ignoring countdown
  with the last position, and the filters may change.
\<close>

theorem trackstick_ignore_all:
  "(length pkt = 6 \<and> (pkt ! 0 AND 0x40) \<noteq> 0
      \<and> \<not> (pkt ! 1 = 0x7f \<and> pkt ! 2 = 0x7f \<and> pkt ! 3 = 0x7f)
    \<longrightarrow> ignoreall (fst (snd (processTrackstickPacketV3 md ts pkt)))
          = ((fst (trackstick_raw pkt) \<noteq> 0 \<or> snd (trackstick_raw pkt) \<noteq> 0)
             \<and> \<not> (0x7f \<le> \<bar>fst (trackstick_raw pkt)\<bar>
                    \<and> 0x7f \<le> \<bar>snd (trackstick_raw pkt)\<bar>)))
   \<and> (ignoreall ts \<and> 0 < xupmm cfg \<and> 0 < yupmm cfg
    \<longrightarrow> (\<exists>xy. scale_axes cfg (s_x smp) (s_y smp) = Inr xy
           \<and> (dispatchEventsWithInfo hp cfg now_abs now_ns ts smp
                 = Inr (ReturnedIgnoreAll (fst (dispatch_prelude hp cfg now_abs ts smp xy))
                          (fst (snd (dispatch_prelude hp cfg now_abs ts smp xy))))
              \<or> dispatchEventsWithInfo hp cfg now_abs now_ns ts smp
                 = Inr (ReturnedAfterTyping (fst (dispatch_prelude hp cfg now_abs ts smp xy))
                          (fst (snd (dispatch_prelude hp cfg now_abs ts smp xy)))))
           \<and> prelude_frame ts (fst (dispatch_prelude hp cfg now_abs ts smp xy))
           \<and> ignoreall (fst (dispatch_prelude hp cfg now_abs ts smp xy))))"
  using trackstick_flag [of pkt md ts]
    dropped_while_ignoreall [of ts cfg smp hp now_abs now_ns]
  by blast

theorem trackstick_ignore_all_witness:
  "ignoreall (fst (snd (processTrackstickPacketV3 md_pinnacle touch_example
                          [0x40, 0x05, 0x00, 0x00, 0x00, 0x3f])))
   \<and> \<not> ignoreall (fst (snd (processTrackstickPacketV3 md_pinnacle
                              (touch_example\<lparr>ignoreall := True\<rparr>)
                              [0x40, 0x00, 0x00, 0x00, 0x00, 0x3f])))
   \<and> dispatchEventsWithInfo plain_helpers settings_example 0 1000
         (touch_example\<lparr>ignoreall := True\<rparr>) touch_sample
       = Inr (ReturnedIgnoreAll (touch_example\<lparr>ignoreall := True\<rparr>) [])"
proof -
  let ?move = "[0x40, 0x05, 0x00, 0x00, 0x00, 0x3f] :: u8 list"
  let ?still = "[0x40, 0x00, 0x00, 0x00, 0x00, 0x3f] :: u8 list"
  let ?ts = "touch_example\<lparr>ignoreall := True\<rparr>"
  have h1: "length ?move = 6 \<and> (?move ! 0 AND 0x40) \<noteq> 0
      \<and> \<not> (?move ! 1 = 0x7f \<and> ?move ! 2 = 0x7f \<and> ?move ! 3 = 0x7f)"
    by simp
  have r1: "trackstick_raw ?move = (5, 0)"
    by (simp add: trackstick_raw_def)
  have c1: "ignoreall (fst (snd (processTrackstickPacketV3 md_pinnacle touch_example ?move)))"
    using trackstick_ignore_all [of ?move md_pinnacle touch_example,
        THEN conjunct1, THEN mp, OF h1]
    by (simp add: r1)
  have h2: "length ?still = 6 \<and> (?still ! 0 AND 0x40) \<noteq> 0
      \<and> \<not> (?still ! 1 = 0x7f \<and> ?still ! 2 = 0x7f \<and> ?still ! 3 = 0x7f)"
    by simp
  have r2: "trackstick_raw ?still = (0, 0)"
    by (simp add: trackstick_raw_def)
  have c2: "\<not> ignoreall (fst (snd (processTrackstickPacketV3 md_pinnacle ?ts ?still)))"
    using trackstick_ignore_all [of ?still md_pinnacle ?ts,
        THEN conjunct1, THEN mp, OF h2]
    by (simp add: r2)
  have h3: "ignoreall ?ts \<and> 0 < xupmm settings_example \<and> 0 < yupmm settings_example"
    by (simp add: settings_example_def)
  have sc: "scale_axes settings_example (s_x touch_sample) (s_y touch_sample) = Inr (100, 80)"
    by (simp add: scale_axes_def settings_example_def touch_sample_def)
  have pre: "dispatch_prelude plain_helpers settings_example 0 ?ts touch_sample (100, 80)
      = (?ts, [], 100, 80, 0)"
    by (simp add: dispatch_prelude_def prelude_buttons_def prelude_finger_change_def
          prelude_filters_def prelude_ignoredeltas_def plain_helpers_def settings_example_def
          touch_sample_def touch_example_def Let_def)
  have oz: "\<not> outzone_wt settings_example"
    by (simp add: settings_example_def)
  have ty: "dispatchEventsWithInfo plain_helpers settings_example 0 1000 ?ts touch_sample
      \<noteq> Inr (ReturnedAfterTyping ?ts [])"
    by (simp add: dispatchEventsWithInfo_def sc pre oz)
  have c3: "dispatchEventsWithInfo plain_helpers settings_example 0 1000 ?ts touch_sample
       = Inr (ReturnedIgnoreAll ?ts [])"
    using trackstick_ignore_all [of _ _ ?ts settings_example touch_sample plain_helpers 0 1000,
        THEN conjunct2, THEN mp, OF h3] ty
    by (auto simp: sc pre)
  show ?thesis
    using c1 c2 c3 by blast
qed

end
